theory Spec2Isabelle
  imports Complex_Main
begin

section \<open>JavaScript strings and values\<close>

text \<open>\<^verbatim>\<open>String.prototype.startsWith\<close> and \<^verbatim>\<open>String.prototype.includes\<close>.\<close>

fun startsWith :: "string \<Rightarrow> string \<Rightarrow> bool" where
  "startsWith s [] = True"
| "startsWith [] (p # ps) = False"
| "startsWith (c # cs) (p # ps) = (c = p \<and> startsWith cs ps)"

fun includes' :: "string \<Rightarrow> string \<Rightarrow> bool" where
  "includes' [] sub = (sub = [])"
| "includes' (c # cs) sub = (startsWith (c # cs) sub \<or> includes' cs sub)"

text \<open>\<^verbatim>\<open>s.substring(a, b)\<close> for \<open>a \<le> b\<close>.\<close>

definition substring :: "nat \<Rightarrow> nat \<Rightarrow> string \<Rightarrow> string" where
  "substring a b s = take (b - a) (drop a s)"

text \<open>Decimal rendering of an integer: \<^verbatim>\<open>n.toString()\<close> and \<^verbatim>\<open>`${n}`\<close>.\<close>

fun digits10 :: "nat \<Rightarrow> string" where
  "digits10 n = (if n < 10 then [''0123456789'' ! n]
                 else digits10 (n div 10) @ [''0123456789'' ! (n mod 10)])"

declare digits10.simps [simp del]

definition toString :: "int \<Rightarrow> string" where
  "toString i = (if i < 0 then CHR ''-'' # digits10 (nat (- i)) else digits10 (nat i))"

text \<open>
  Errors are values. Messages that the source writes in Russian are represented by the
  constructor and its arguments: \<open>FileTooLarge 50\<close> is the \<^verbatim>\<open>Error\<close> thrown by
  \<^verbatim>\<open>validateFileSize\<close> for a limit of 50 MB, \<open>UnsupportedFileType ts\<close> the one thrown
  by \<^verbatim>\<open>validateFileType\<close> for the allowed list \<open>ts\<close>.
\<close>

datatype js_error =
    QuotaExceededError
  | SyntaxError
  | TypeError
  | FileTooLarge nat
  | UnsupportedFileType "string list"
  | HttpError nat
  | FetchFailed

text \<open>
  A value produced by \<^verbatim>\<open>JSON.parse\<close>. An object is the list of its own properties in
  enumeration order.
\<close>

datatype json =
    JNull
  | JBool bool
  | JNum int
  | JStr string
  | JArr "json list"
  | JObj "(string \<times> json) list"

text \<open>JavaScript truthiness of a property read; \<open>None\<close> is \<^verbatim>\<open>undefined\<close>.\<close>

fun truthy :: "json option \<Rightarrow> bool" where
  "truthy None = False"
| "truthy (Some JNull) = False"
| "truthy (Some (JBool b)) = b"
| "truthy (Some (JNum n)) = (n \<noteq> 0)"
| "truthy (Some (JStr s)) = (s \<noteq> [])"
| "truthy (Some (JArr xs)) = True"
| "truthy (Some (JObj fs)) = True"

text \<open>
  \<^verbatim>\<open>data.user_id\<close>: reading a property of \<^verbatim>\<open>null\<close> throws a \<^verbatim>\<open>TypeError\<close>; a
  primitive or an array has no such property.
\<close>

fun get_prop :: "json \<Rightarrow> string \<Rightarrow> js_error + json option" where
  "get_prop JNull k = Inl TypeError"
| "get_prop (JObj fs) k = Inr (map_of fs k)"
| "get_prop v k = Inr None"

text \<open>Setting an own property keeps the position of an existing key and appends a new one.\<close>

fun put_field :: "('k \<times> 'v) list \<Rightarrow> 'k \<Rightarrow> 'v \<Rightarrow> ('k \<times> 'v) list" where
  "put_field [] k v = [(k, v)]"
| "put_field ((k', v') # fs) k v = (if k' = k then (k, v) # fs else (k', v') # put_field fs k v)"

text \<open>
  \<^verbatim>\<open>data.user_id = v\<close> in strict mode (the patch file starts with \<^verbatim>\<open>'use strict'\<close>):
  assignment to a property of a primitive throws a \<^verbatim>\<open>TypeError\<close>. An array accepts the
  property, but \<^verbatim>\<open>JSON.stringify\<close> does not serialise non-index properties of an array,
  so the array is returned as it serialises.
\<close>

fun set_prop :: "json \<Rightarrow> string \<Rightarrow> json \<Rightarrow> js_error + json" where
  "set_prop (JObj fs) k v = Inr (JObj (put_field fs k v))"
| "set_prop (JArr xs) k v = Inr (JArr xs)"
| "set_prop d k v = Inl TypeError"

section \<open>The browser environment\<close>

text \<open>
  \<^verbatim>\<open>window.Telegram.WebApp\<close>, as far as the code reads it. \<open>None\<close> stands for
  \<^verbatim>\<open>undefined\<close>.
\<close>

record tg_user =
  id' :: int

record init_data_unsafe =
  user :: "tg_user option"

record web_app =
  initData :: string
  initDataUnsafe :: "init_data_unsafe option"

text \<open>
  The Telegram integration script keeps \<^verbatim>\<open>let tg = window.Telegram?.WebApp\<close> and
  \<^verbatim>\<open>let isInTelegram = !!tg && !!tg.initData\<close>, both computed once when the script loads,
  and exports \<^verbatim>\<open>window.TelegramWebApp\<close>. \<open>tg\<close> is a reference to the host's object, so
  reading through it reads the current \<open>Telegram_WebApp\<close> of the environment.
\<close>

record telegram_adapter =
  isInTelegram :: bool

datatype log_entry =
    Log string string
  | LogError string js_error

text \<open>
  \<open>quota_exceeded\<close> says whether \<^verbatim>\<open>localStorage.setItem\<close> throws (storage full or
  disabled). \<open>Date_now\<close> is the value of \<^verbatim>\<open>Date.now()\<close>, \<open>Math_random_36\<close> the value of
  \<^verbatim>\<open>Math.random().toString(36)\<close>.
\<close>

record env =
  Telegram_WebApp :: "web_app option"
  TelegramWebApp :: "telegram_adapter option"
  localStorage :: "string \<rightharpoonup> string"
  quota_exceeded :: bool
  Date_now :: nat
  Math_random_36 :: string
  console :: "log_entry list"

definition console_log :: "string \<Rightarrow> string \<Rightarrow> env \<Rightarrow> env" where
  "console_log label v e = e\<lparr>console := console e @ [Log label v]\<rparr>"

definition console_error :: "string \<Rightarrow> js_error \<Rightarrow> env \<Rightarrow> env" where
  "console_error label err e = e\<lparr>console := console e @ [LogError label err]\<rparr>"

definition setItem :: "string \<Rightarrow> string \<Rightarrow> env \<Rightarrow> js_error + env" where
  "setItem k v e =
     (if quota_exceeded e then Inl QuotaExceededError
      else Inr (e\<lparr>localStorage := (localStorage e)(k \<mapsto> v)\<rparr>))"

text \<open>The adapter as the integration script creates it when it loads.\<close>

definition load_adapter :: "env \<Rightarrow> env" where
  "load_adapter e =
     e\<lparr>TelegramWebApp :=
         Some \<lparr>isInTelegram =
           (case Telegram_WebApp e of None \<Rightarrow> False | Some tg \<Rightarrow> initData tg \<noteq> [])\<rparr>\<rparr>"

text \<open>
  \<^verbatim>\<open>getTelegramUser()\<close> of the integration script:
  \<^verbatim>\<open>isInTelegram && tg.initDataUnsafe && tg.initDataUnsafe.user\<close>.
\<close>

definition getTelegramUser :: "telegram_adapter \<Rightarrow> env \<Rightarrow> tg_user option" where
  "getTelegramUser a e =
     (if isInTelegram a then
        (case Telegram_WebApp e of
           None \<Rightarrow> None
         | Some tg \<Rightarrow> (case initDataUnsafe tg of None \<Rightarrow> None | Some d \<Rightarrow> user d))
      else None)"

section \<open>Identity resolver (user-id-patch.js, window.getUserId)\<close>

text \<open>
  The guard of step 1:
  \<^verbatim>\<open>window.Telegram && window.Telegram.WebApp\<close>, then
  \<^verbatim>\<open>tgUser = window.Telegram.WebApp.initDataUnsafe?.user\<close>, then \<^verbatim>\<open>tgUser && tgUser.id\<close>.
  The result is the id when the guard holds.
\<close>

definition telegram_identity :: "env \<Rightarrow> int option" where
  "telegram_identity e =
     (case Telegram_WebApp e of
        None \<Rightarrow> None
      | Some w \<Rightarrow>
          (case initDataUnsafe w of
             None \<Rightarrow> None
           | Some d \<Rightarrow>
               (case user d of
                  None \<Rightarrow> None
                | Some tgUser \<Rightarrow> if id' tgUser \<noteq> 0 then Some (id' tgUser) else None)))"

definition getUserId :: "env \<Rightarrow> js_error + (string \<times> env)" where
  "getUserId e =
     (case telegram_identity e of
        Some i \<Rightarrow> Inr (''tg_'' @ toString i, e)
      | None \<Rightarrow>
          (let stored = localStorage e ''chat_user_id'' in
           if stored = None \<or> stored = Some [] then
             (let timestamp = Date_now e;
                  random = substring 2 15 (Math_random_36 e);
                  userId = ''web_'' @ digits10 timestamp @ ''_'' @ random
              in case setItem ''chat_user_id'' userId e of
                   Inl err \<Rightarrow> Inl err
                 | Inr e' \<Rightarrow> Inr (userId, console_log ''Generated new user_id:'' userId e'))
           else Inr (the stored, e)))"

text \<open>The token that step 3 generates in the environment \<open>e\<close>.\<close>

definition fresh_id :: "env \<Rightarrow> string" where
  "fresh_id e = ''web_'' @ digits10 (Date_now e) @ ''_'' @ substring 2 15 (Math_random_36 e)"

section \<open>Requests\<close>

record js_file =
  name :: string
  type' :: string
  size' :: nat
  image' :: "(nat \<times> nat) option"

datatype form_value = FString string | FFile js_file

type_synonym form_data = "(string \<times> form_value) list"

definition has :: "form_data \<Rightarrow> string \<Rightarrow> bool" where
  "has fd k = (k \<in> set (map fst fd))"

definition append' :: "form_data \<Rightarrow> string \<Rightarrow> form_value \<Rightarrow> form_data" where
  "append' fd k v = fd @ [(k, v)]"

datatype body = FormData form_data | Text string | NoBody

text \<open>
  The options object passed to \<^verbatim>\<open>fetch\<close>; \<open>None\<close> is an absent property. \<open>headers\<close> is a
  plain object.
\<close>

record options =
  method' :: "string option"
  headers :: "(string \<rightharpoonup> string) option"
  body :: body

type_synonym request = "string \<times> options"

section \<open>Request identity injector (user-id-patch.js)\<close>

text \<open>
  \<^verbatim>\<open>JSON.parse\<close> and \<^verbatim>\<open>JSON.stringify\<close> belong to the platform; the injector takes them
  as the parameters \<open>parse\<close> and \<open>stringify\<close>. \<^verbatim>\<open>JSON.parse(undefined)\<close> parses the text
  \<^verbatim>\<open>undefined\<close>.
\<close>

definition body_text :: "body \<Rightarrow> string" where
  "body_text b = (case b of Text s \<Rightarrow> s | NoBody \<Rightarrow> ''undefined'' | FormData fd \<Rightarrow> ''[object FormData]'')"

text \<open>
  The \<^verbatim>\<open>try\<close> block of the JSON branch. Every exception raised inside it, whether by
  \<^verbatim>\<open>JSON.parse\<close>, by the property access or by \<^verbatim>\<open>getUserId\<close>, is caught by the one
  \<^verbatim>\<open>catch\<close>, which logs it; the options keep what had been assigned until then.
  In \<^verbatim>\<open>data.user_id = getUserId()\<close> the call is evaluated before the assignment.
\<close>

definition inject_json ::
  "(string \<Rightarrow> js_error + json) \<Rightarrow> (json \<Rightarrow> string) \<Rightarrow> options \<Rightarrow> env \<Rightarrow> options \<times> env" where
  "inject_json parse stringify opts e =
     (case parse (body_text (body opts)) of
        Inl err \<Rightarrow> (opts, console_error ''Error parsing JSON body:'' err e)
      | Inr data \<Rightarrow>
          (case get_prop data ''user_id'' of
             Inl err \<Rightarrow> (opts, console_error ''Error parsing JSON body:'' err e)
           | Inr uid \<Rightarrow>
               if \<not> truthy uid then
                 (case getUserId e of
                    Inl err \<Rightarrow> (opts, console_error ''Error parsing JSON body:'' err e)
                  | Inr (x, e1) \<Rightarrow>
                      (case set_prop data ''user_id'' (JStr x) of
                         Inl err \<Rightarrow> (opts, console_error ''Error parsing JSON body:'' err e1)
                       | Inr data' \<Rightarrow>
                           (let opts' = opts\<lparr>body := Text (stringify data')\<rparr> in
                            case getUserId e1 of
                              Inl err \<Rightarrow> (opts', console_error ''Error parsing JSON body:'' err e1)
                            | Inr (y, e2) \<Rightarrow> (opts', console_log ''Added user_id to JSON:'' y e2))))
               else (opts, e)))"

text \<open>
  The multipart branch, shared by the patched \<^verbatim>\<open>fetch\<close> and the patched
  \<^verbatim>\<open>XMLHttpRequest.prototype.send\<close>: append \<^verbatim>\<open>user_id\<close> unless the form has one. Nothing
  catches an exception of \<^verbatim>\<open>getUserId\<close> here. The second call of \<^verbatim>\<open>getUserId\<close> is the
  one in the argument of \<^verbatim>\<open>console.log\<close>.
\<close>

definition inject_form :: "string \<Rightarrow> form_data \<Rightarrow> env \<Rightarrow> js_error + (form_data \<times> env)" where
  "inject_form label fd e =
     (if \<not> has fd ''user_id'' then
        (case getUserId e of
           Inl err \<Rightarrow> Inl err
         | Inr (x, e1) \<Rightarrow>
             (case getUserId e1 of
                Inl err \<Rightarrow> Inl err
              | Inr (y, e2) \<Rightarrow> Inr (append' fd ''user_id'' (FString x), console_log label y e2)))
      else Inr (fd, e))"

text \<open>\<^verbatim>\<open>options.headers && options.headers['Content-Type'] === 'application/json'\<close>.\<close>

definition json_content_type :: "options \<Rightarrow> bool" where
  "json_content_type opts =
     (case headers opts of None \<Rightarrow> False | Some h \<Rightarrow> h ''Content-Type'' = Some ''application/json'')"

text \<open>
  The patched \<^verbatim>\<open>window.fetch\<close>. The result is the pair of arguments with which the original
  \<^verbatim>\<open>fetch\<close> is called, that is, the request that leaves the page.
\<close>

definition fetch_patched ::
  "(string \<Rightarrow> js_error + json) \<Rightarrow> (json \<Rightarrow> string) \<Rightarrow> string \<Rightarrow> options \<Rightarrow> env
     \<Rightarrow> js_error + (request \<times> env)" where
  "fetch_patched parse stringify url opts e =
     (if includes' url ''/api/chat'' \<and> method' opts = Some ''POST'' then
        (case body opts of
           FormData fd \<Rightarrow>
             (case inject_form ''Added user_id to FormData:'' fd e of
                Inl err \<Rightarrow> Inl err
              | Inr (fd', e') \<Rightarrow> Inr ((url, opts\<lparr>body := FormData fd'\<rparr>), e'))
         | _ \<Rightarrow>
             if json_content_type opts
             then (case inject_json parse stringify opts e of (opts', e') \<Rightarrow> Inr ((url, opts'), e'))
             else Inr ((url, opts), e))
      else Inr ((url, opts), e))"

text \<open>
  The patched \<^verbatim>\<open>XMLHttpRequest\<close>. \<^verbatim>\<open>open(method, url)\<close> stores the URL in \<^verbatim>\<open>this._url\<close>
  (field \<open>url'\<close>) and calls the original \<^verbatim>\<open>open\<close> with all its arguments (field
  \<open>opened\<close>). \<^verbatim>\<open>send(body)\<close> returns the body with which the original \<^verbatim>\<open>send\<close> is called.
\<close>

record xhr =
  url' :: "string option"
  opened :: "(string \<times> string) option"

definition xhr_new :: xhr where
  "xhr_new = \<lparr>url' = None, opened = None\<rparr>"

definition xhr_open :: "string \<Rightarrow> string \<Rightarrow> xhr \<Rightarrow> xhr" where
  "xhr_open meth url x = x\<lparr>url' := Some url, opened := Some (meth, url)\<rparr>"

definition xhr_send :: "body \<Rightarrow> xhr \<Rightarrow> env \<Rightarrow> js_error + (body \<times> env)" where
  "xhr_send b x e =
     (if (case url' x of None \<Rightarrow> False | Some u \<Rightarrow> u \<noteq> [] \<and> includes' u ''/api/chat'') then
        (case b of
           FormData fd \<Rightarrow>
             (case inject_form ''Added user_id to XMLHttpRequest FormData:'' fd e of
                Inl err \<Rightarrow> Inl err
              | Inr (fd', e') \<Rightarrow> Inr (FormData fd', e'))
         | _ \<Rightarrow> Inr (b, e))
      else Inr (b, e))"

section \<open>Opt-in retry helper (ApiUtils.retryRequest)\<close>







section \<open>API client (ApiClient, ChatAPI)\<close>

text \<open>
  Console output of the API client is not modelled. \<^verbatim>\<open>makeRequest\<close> ends in a call of the
  global \<^verbatim>\<open>fetch\<close>, which is the patched one; the model returns the request that reaches
  the original \<^verbatim>\<open>fetch\<close>, or the exception thrown before that. The server's reply is an
  input of the view controller below.
\<close>

definition API_BASE_URL :: string where
  "API_BASE_URL = []"

definition getTelegramUserId :: "env \<Rightarrow> string option" where
  "getTelegramUserId e =
     (case TelegramWebApp e of
        None \<Rightarrow> None
      | Some a \<Rightarrow>
          if isInTelegram a then
            (case getTelegramUser a e of
               None \<Rightarrow> None
             | Some u \<Rightarrow> if id' u \<noteq> 0 then Some (toString (id' u)) else None)
          else None)"

definition getUserHeaders :: "env \<Rightarrow> (string \<rightharpoonup> string)" where
  "getUserHeaders e =
     (case getTelegramUserId e of
        Some telegramUserId \<Rightarrow>
          if telegramUserId \<noteq> [] then [''X-Telegram-User-Id'' \<mapsto> telegramUserId] else Map.empty
      | None \<Rightarrow> Map.empty)"

text \<open>\<^verbatim>\<open>options.body && !(options.body instanceof FormData)\<close>.\<close>

definition json_body :: "body \<Rightarrow> bool" where
  "json_body b = (case b of Text s \<Rightarrow> s \<noteq> [] | FormData fd \<Rightarrow> False | NoBody \<Rightarrow> False)"

definition makeRequest ::
  "(string \<Rightarrow> js_error + json) \<Rightarrow> (json \<Rightarrow> string) \<Rightarrow> string \<Rightarrow> options \<Rightarrow> env
     \<Rightarrow> js_error + (request \<times> env)" where
  "makeRequest parse stringify endpoint opts e =
     (let url = API_BASE_URL @ endpoint;
          userHeaders = getUserHeaders e;
          defaultHeaders =
            (if json_body (body opts) then userHeaders(''Content-Type'' \<mapsto> ''application/json'')
             else userHeaders);
          requestOptions =
            opts\<lparr>headers :=
              Some (defaultHeaders ++ (case headers opts of None \<Rightarrow> Map.empty | Some h \<Rightarrow> h))\<rparr>
      in fetch_patched parse stringify url requestOptions e)"

text \<open>
  \<^verbatim>\<open>new URLSearchParams(params).toString()\<close>: the \<^verbatim>\<open>application/x-www-form-urlencoded\<close>
  serialisation of the entries of \<open>params\<close>.
\<close>

definition url_safe :: "char \<Rightarrow> bool" where
  "url_safe c =
     (c \<in> set ''ABCDEFGHIJKLMNOPQRSTUVWXYZabcdefghijklmnopqrstuvwxyz0123456789*-._'')"

definition hex2 :: "nat \<Rightarrow> string" where
  "hex2 n = [''0123456789ABCDEF'' ! (n div 16), ''0123456789ABCDEF'' ! (n mod 16)]"

fun urlencode :: "string \<Rightarrow> string" where
  "urlencode [] = []"
| "urlencode (c # cs) =
     (if url_safe c then [c] else if c = CHR '' '' then ''+'' else CHR ''%'' # hex2 (of_char c))
     @ urlencode cs"

fun join :: "string \<Rightarrow> string list \<Rightarrow> string" where
  "join sep [] = []"
| "join sep [x] = x"
| "join sep (x # y # ys) = x @ sep @ join sep (y # ys)"

definition searchParams_toString :: "(string \<times> string) list \<Rightarrow> string" where
  "searchParams_toString params =
     join ''&'' (map (\<lambda>kv. urlencode (fst kv) @ ''='' @ urlencode (snd kv)) params)"

definition get ::
  "(string \<Rightarrow> js_error + json) \<Rightarrow> (json \<Rightarrow> string) \<Rightarrow> string \<Rightarrow> (string \<times> string) list \<Rightarrow> env
     \<Rightarrow> js_error + (request \<times> env)" where
  "get parse stringify endpoint params e =
     (let params' =
            (case getTelegramUserId e of
               Some telegramUserId \<Rightarrow>
                 if telegramUserId \<noteq> [] then put_field params ''telegram_user_id'' telegramUserId
                 else params
             | None \<Rightarrow> params);
          searchParams = searchParams_toString params';
          urlWithParams = (if searchParams \<noteq> [] then endpoint @ ''?'' @ searchParams else endpoint)
      in makeRequest parse stringify urlWithParams
           \<lparr>method' = Some ''GET'', headers = None, body = NoBody\<rparr> e)"

text \<open>
  \<^verbatim>\<open>post(endpoint, data)\<close>: \<^verbatim>\<open>telegramUserId && data && typeof data === 'object'\<close> holds for
  objects and arrays.
\<close>

definition post ::
  "(string \<Rightarrow> js_error + json) \<Rightarrow> (json \<Rightarrow> string) \<Rightarrow> string \<Rightarrow> json \<Rightarrow> env
     \<Rightarrow> js_error + (request \<times> env)" where
  "post parse stringify endpoint data e =
     (let data' =
            (case getTelegramUserId e of
               Some telegramUserId \<Rightarrow>
                 if telegramUserId \<noteq> [] then
                   (case set_prop data ''telegram_user_id'' (JStr telegramUserId) of
                      Inr d \<Rightarrow> d | Inl err \<Rightarrow> data)
                 else data
             | None \<Rightarrow> data)
      in makeRequest parse stringify endpoint
           \<lparr>method' = Some ''POST'', headers = None, body = Text (stringify data')\<rparr> e)"

definition postFormData ::
  "(string \<Rightarrow> js_error + json) \<Rightarrow> (json \<Rightarrow> string) \<Rightarrow> string \<Rightarrow> form_data \<Rightarrow> env
     \<Rightarrow> js_error + (request \<times> env)" where
  "postFormData parse stringify endpoint formData e =
     (let formData' =
            (case getTelegramUserId e of
               Some telegramUserId \<Rightarrow>
                 if telegramUserId \<noteq> []
                 then append' formData ''telegram_user_id'' (FString telegramUserId)
                 else formData
             | None \<Rightarrow> formData)
      in makeRequest parse stringify endpoint
           \<lparr>method' = Some ''POST'', headers = Some Map.empty, body = FormData formData'\<rparr> e)"

definition ChatAPI_sendMessage ::
  "(string \<Rightarrow> js_error + json) \<Rightarrow> (json \<Rightarrow> string) \<Rightarrow> string \<Rightarrow> js_file option \<Rightarrow> env
     \<Rightarrow> js_error + (request \<times> env)" where
  "ChatAPI_sendMessage parse stringify message imageFile e =
     (let formData1 = (if message \<noteq> [] then append' [] ''message'' (FString message) else []);
          formData2 =
            (case imageFile of Some f \<Rightarrow> append' formData1 ''image'' (FFile f) | None \<Rightarrow> formData1)
      in postFormData parse stringify ''/api/chat'' formData2 e)"

definition ChatAPI_getHistory ::
  "(string \<Rightarrow> js_error + json) \<Rightarrow> (json \<Rightarrow> string) \<Rightarrow> nat \<Rightarrow> env \<Rightarrow> js_error + (request \<times> env)" where
  "ChatAPI_getHistory parse stringify limit e =
     get parse stringify ''/api/chat/history'' [(''limit'', digits10 limit)] e"

definition ChatAPI_clearHistory ::
  "(string \<Rightarrow> js_error + json) \<Rightarrow> (json \<Rightarrow> string) \<Rightarrow> env \<Rightarrow> js_error + (request \<times> env)" where
  "ChatAPI_clearHistory parse stringify e = post parse stringify ''/api/chat/clear'' (JObj []) e"

section \<open>File validation and image compression (ApiUtils)\<close>

definition validateFileSize :: "js_file \<Rightarrow> nat \<Rightarrow> js_error + bool" where
  "validateFileSize f maxSizeMB =
     (let maxSizeBytes = maxSizeMB * 1024 * 1024 in
      if size' f > maxSizeBytes then Inl (FileTooLarge maxSizeMB) else Inr True)"

definition default_allowedTypes :: "string list" where
  "default_allowedTypes =
     [''image/jpeg'', ''image/png'', ''image/webp'', ''image/heic'', ''image/heif'']"

definition validateFileType :: "js_file \<Rightarrow> string list \<Rightarrow> js_error + bool" where
  "validateFileType f allowedTypes =
     (if type' f \<notin> set allowedTypes then Inl (UnsupportedFileType allowedTypes) else Inr True)"

text \<open>
  The size of the canvas that \<^verbatim>\<open>img.onload\<close> sets. \<^verbatim>\<open>img.width\<close> and \<^verbatim>\<open>img.height\<close> are
  non-negative integers. The scaled edge, \<^verbatim>\<open>(height * maxDimension) / width\<close>, is a
  JavaScript number, that is, the double nearest to the quotient; the model does not
  represent it. \<^verbatim>\<open>canvas.width = width; canvas.height = height\<close> keep the integer part of
  what they are given, because the attributes of a canvas are unsigned integers. For
  image sizes below \<open>2 ^ 42\<close> the product is exact and the double nearest to the quotient
  has the integer part of the quotient itself, so the edge of the canvas is the integer
  quotient. The encoded image has the pixel size of the canvas.
\<close>

definition maxDimension :: nat where
  "maxDimension = 1200"

definition canvas_size :: "nat \<Rightarrow> nat \<Rightarrow> nat \<times> nat" where
  "canvas_size width height =
     (if width > maxDimension \<or> height > maxDimension then
        (if width > height
         then (maxDimension, (height * maxDimension) div width)
         else ((width * maxDimension) div height, maxDimension))
      else (width, height))"

text \<open>\<^verbatim>\<open>file.name.replace(/\.[^/.]+$/, '')\<close>: drop a final extension.\<close>

definition strip_extension :: "string \<Rightarrow> string" where
  "strip_extension n =
     (let r = rev n;
          ext = takeWhile (\<lambda>c. c \<noteq> CHR ''/'' \<and> c \<noteq> CHR ''.'') r;
          rest = dropWhile (\<lambda>c. c \<noteq> CHR ''/'' \<and> c \<noteq> CHR ''.'') r
      in if ext \<noteq> [] \<and> startsWith rest ''.'' then rev (drop 1 rest) else n)"

text \<open>
  \<^verbatim>\<open>compressImage(file, maxSizeMB, quality)\<close>. \<open>image' file\<close> is the pixel size of the picture
  that the file decodes to; for a file that does not decode, \<^verbatim>\<open>img.onload\<close> never runs and
  the promise never settles (\<open>None\<close>). \<open>toBlob\<close> stands for the JPEG encoder: the byte size
  of the encoded canvas. An empty canvas encodes to \<^verbatim>\<open>null\<close>, and
  \<^verbatim>\<open>new File([null], ...)\<close> holds the four characters \<^verbatim>\<open>null\<close>.
\<close>

definition compressImage ::
  "(js_file \<Rightarrow> nat \<times> nat \<Rightarrow> rat \<Rightarrow> nat) \<Rightarrow> js_file \<Rightarrow> nat \<Rightarrow> rat \<Rightarrow> js_file option" where
  "compressImage toBlob f maxSizeMB quality =
     (case image' f of
        None \<Rightarrow> None
      | Some (width, height) \<Rightarrow>
          (let canvas = canvas_size width height;
               compressedFileName = strip_extension (name f) @ ''_compressed.jpg''
           in if fst canvas = 0 \<or> snd canvas = 0
              then Some \<lparr>name = compressedFileName, type' = ''image/jpeg'', size' = 4,
                         image' = None\<rparr>
              else Some \<lparr>name = compressedFileName, type' = ''image/jpeg'',
                         size' = toBlob f canvas quality, image' = Some canvas\<rparr>))"

datatype 'a promise = Fulfilled 'a | Failed js_error | Pending

definition prepareImageFile ::
  "(js_file \<Rightarrow> nat \<times> nat \<Rightarrow> rat \<Rightarrow> nat) \<Rightarrow> js_file \<Rightarrow> js_file promise" where
  "prepareImageFile toBlob f =
     (case validateFileType f default_allowedTypes of
        Inl err \<Rightarrow> Failed err
      | Inr _ \<Rightarrow>
          (case validateFileSize f 50 of
             Inl err \<Rightarrow> Failed err
           | Inr _ \<Rightarrow>
               if size' f > 2 * 1024 * 1024 then
                 (case compressImage toBlob f 2 (85 / 100) of
                    None \<Rightarrow> Pending
                  | Some compressed \<Rightarrow> Fulfilled compressed)
               else Fulfilled f))"

section \<open>Chat manager (chat.js)\<close>

text \<open>
  The decoded JSON reply of the chat endpoints, as far as the manager reads it. A history
  message has a role and optional parts; a part has an optional text and optional inline
  image data (MIME type and base64 data).
\<close>

record part =
  text' :: "string option"
  inline_data :: "(string \<times> string) option"

record history_msg =
  role :: string
  parts :: "part list option"

record reply =
  success :: bool
  user_id :: "string option"
  response :: "string option"
  history :: "history_msg list option"
  error :: "string option"

text \<open>
  What the chat window shows. The texts the source writes in Russian are represented by
  the constructors: \<open>BotRefused\<close> is the apology with the server's error text,
  \<open>BotFailed\<close> the translated message of \<^verbatim>\<open>handleApiError\<close> for an exception. The second
  argument of \<open>UserEntry\<close> is the picture shown with the message, if any: the name of the
  attached file for a message that is sent, the data URL for a message of the history.
\<close>

datatype chat_entry =
    UserEntry string "string option"
  | BotEntry string
  | BotRefused "string option"
  | BotFailed js_error

datatype alert = ChooseImageAlert | ErrorAlert js_error

record current_image =
  file' :: js_file
  originalName :: string
  processedName :: string
  originalSize :: nat
  processedSize :: nat

text \<open>
  The module variables \<^verbatim>\<open>currentImage\<close>, \<^verbatim>\<open>chatHistory\<close>, \<^verbatim>\<open>currentUserId\<close>, the fields
  of the \<^verbatim>\<open>ChatManager\<close> instance, the rendered message list, the dialogs shown to the
  user, whether the preview area is in use, and the requests that left the page.
\<close>

record chat =
  currentImage :: "current_image option"
  chatHistory :: "(string \<times> string) list"
  currentUserId :: "string option"
  isProcessing :: bool
  isHistoryLoaded :: bool
  messages :: "chat_entry list"
  alerts :: "alert list"
  previewMode :: bool
  sent :: "request list"

definition updateUserId :: "env \<Rightarrow> chat \<Rightarrow> chat" where
  "updateUserId e st =
     (if (case TelegramWebApp e of None \<Rightarrow> False | Some a \<Rightarrow> isInTelegram a) then
        (case getTelegramUser (the (TelegramWebApp e)) e of
           None \<Rightarrow> st
         | Some u \<Rightarrow>
             if id' u \<noteq> 0 then
               (let newUserId = ''tg_'' @ toString (id' u) in
                if currentUserId st \<noteq> Some newUserId
                then st\<lparr>currentUserId := Some newUserId, isHistoryLoaded := False\<rparr>
                else st)
             else st)
      else
        (if currentUserId st = None \<or> currentUserId st = Some []
         then st\<lparr>currentUserId := Some (''web_session_'' @ digits10 (Date_now e))\<rparr>
         else st))"

text \<open>\<^verbatim>\<open>msg.parts ? msg.parts.find(part => part.text) : null\<close>, then its text or \<^verbatim>\<open>''\<close>.\<close>

definition part_has_text :: "part \<Rightarrow> bool" where
  "part_has_text p = (case text' p of None \<Rightarrow> False | Some t \<Rightarrow> t \<noteq> [])"

definition message_text :: "history_msg \<Rightarrow> string" where
  "message_text msg =
     (case parts msg of
        None \<Rightarrow> []
      | Some ps \<Rightarrow> (case find part_has_text ps of None \<Rightarrow> [] | Some p \<Rightarrow> the (text' p)))"

definition message_image :: "history_msg \<Rightarrow> string option" where
  "message_image msg =
     (case parts msg of
        None \<Rightarrow> None
      | Some ps \<Rightarrow>
          (case find (\<lambda>p. inline_data p \<noteq> None) ps of
             None \<Rightarrow> None
           | Some p \<Rightarrow>
               (case the (inline_data p) of
                  (mime, data) \<Rightarrow> Some (''data:'' @ mime @ '';base64,'' @ data))))"

fun render_history :: "history_msg list \<Rightarrow> chat_entry list" where
  "render_history [] = []"
| "render_history (msg # ms) =
     (if role msg = ''user'' then UserEntry (message_text msg) (message_image msg) # render_history ms
      else if role msg = ''model'' then BotEntry (message_text msg) # render_history ms
      else render_history ms)"

definition is_bot_entry :: "chat_entry \<Rightarrow> bool" where
  "is_bot_entry x = (case x of UserEntry t i \<Rightarrow> False | _ \<Rightarrow> True)"

text \<open>
  The part of \<^verbatim>\<open>loadChatHistory\<close> that follows \<^verbatim>\<open>await window.API.Chat.getHistory()\<close>, for
  the decoded reply \<open>data\<close>.
\<close>

definition history_loaded :: "reply \<Rightarrow> chat \<Rightarrow> chat" where
  "history_loaded data st =
     (if success data then
        (let st1 = (case user_id data of
                      Some u \<Rightarrow> if u \<noteq> [] then st\<lparr>currentUserId := Some u\<rparr> else st
                    | None \<Rightarrow> st);
             st2 = (case history data of
                      Some (m # ms) \<Rightarrow>
                        st1\<lparr>messages :=
                               (case find is_bot_entry (messages st1) of
                                  None \<Rightarrow> [] | Some welcome \<Rightarrow> [welcome])
                               @ render_history (m # ms),
                             chatHistory :=
                               map (\<lambda>msg. (if role msg = ''model'' then ''bot'' else role msg,
                                           message_text msg)) (m # ms)\<rparr>
                    | _ \<Rightarrow> st1)
         in st2\<lparr>isHistoryLoaded := True\<rparr>)
      else st)"

text \<open>
  \<^verbatim>\<open>loadChatHistory\<close>. \<open>server\<close> gives, for the request that leaves the page, the outcome
  of the awaited call: the decoded reply, or the exception (no connection, HTTP status
  outside 2xx). An exception is logged and changes nothing more.
\<close>

definition loadChatHistory ::
  "(string \<Rightarrow> js_error + json) \<Rightarrow> (json \<Rightarrow> string) \<Rightarrow> (request \<Rightarrow> js_error + reply)
     \<Rightarrow> env \<Rightarrow> chat \<Rightarrow> chat \<times> env" where
  "loadChatHistory parse stringify server e st =
     (let st1 = updateUserId e st in
      case ChatAPI_getHistory parse stringify 10 e of
        Inl err \<Rightarrow> (st1, e)
      | Inr (req, e') \<Rightarrow>
          (let st2 = st1\<lparr>sent := sent st1 @ [req]\<rparr> in
           case server req of
             Inl err \<Rightarrow> (st2, e')
           | Inr data \<Rightarrow> (history_loaded data st2, e')))"

text \<open>
  The part of \<^verbatim>\<open>sendMessage\<close> inside \<^verbatim>\<open>try\<close> that follows the awaited call, for the decoded
  reply \<open>data\<close>. \<^verbatim>\<open>addMessageToChat('bot', data.response)\<close> throws a \<^verbatim>\<open>TypeError\<close> when the
  reply has no \<^verbatim>\<open>response\<close>; the \<^verbatim>\<open>catch\<close> block then shows the failure.
\<close>

definition message_answered :: "string \<Rightarrow> reply \<Rightarrow> chat \<Rightarrow> chat" where
  "message_answered message data st =
     (if success data then
        (let st1 = (case user_id data of
                      Some u \<Rightarrow> if u \<noteq> [] then st\<lparr>currentUserId := Some u\<rparr> else st
                    | None \<Rightarrow> st)
         in case response data of
              None \<Rightarrow> st1\<lparr>messages := messages st1 @ [BotFailed TypeError]\<rparr>
            | Some r \<Rightarrow>
                st1\<lparr>messages := messages st1 @ [BotEntry r],
                     chatHistory := chatHistory st1 @ [(''user'', message), (''bot'', r)]\<rparr>)
      else st\<lparr>messages := messages st @ [BotRefused (error data)]\<rparr>)"

text \<open>\<^verbatim>\<open>sendMessage\<close>, for the trimmed value \<open>message\<close> of the input field.\<close>

definition sendMessage ::
  "(string \<Rightarrow> js_error + json) \<Rightarrow> (json \<Rightarrow> string) \<Rightarrow> (request \<Rightarrow> js_error + reply)
     \<Rightarrow> string \<Rightarrow> env \<Rightarrow> chat \<Rightarrow> chat \<times> env" where
  "sendMessage parse stringify server message e st =
     (if isProcessing st then (st, e)
      else if message = [] \<and> currentImage st = None then (st, e)
      else
        (let st1 = (updateUserId e st)\<lparr>isProcessing := True\<rparr>;
             st2 = st1\<lparr>messages := messages st1 @
                         [UserEntry message (map_option originalName (currentImage st1))]\<rparr>;
             imageFile = map_option file' (currentImage st2);
             st3 = st2\<lparr>currentImage := None, previewMode := False\<rparr>
         in case ChatAPI_sendMessage parse stringify message imageFile e of
              Inl err \<Rightarrow>
                (st3\<lparr>messages := messages st3 @ [BotFailed err], isProcessing := False\<rparr>, e)
            | Inr (req, e') \<Rightarrow>
                (let st4 = st3\<lparr>sent := sent st3 @ [req]\<rparr> in
                 case server req of
                   Inl err \<Rightarrow>
                     (st4\<lparr>messages := messages st4 @ [BotFailed err], isProcessing := False\<rparr>, e')
                 | Inr data \<Rightarrow> ((message_answered message data st4)\<lparr>isProcessing := False\<rparr>, e'))))"

text \<open>
  \<^verbatim>\<open>handleImageSelect\<close>, for the first selected file. A type that does not start with
  \<^verbatim>\<open>image/\<close> is refused with a dialog before anything else. Otherwise the preview area is
  switched on and \<^verbatim>\<open>prepareImageFile\<close> awaited: a rejection switches the preview off and
  shows the error's message; a fulfilment stores the processed file as the current image;
  while the promise is pending nothing further happens.
\<close>

definition handleImageSelect ::
  "(js_file \<Rightarrow> nat \<times> nat \<Rightarrow> rat \<Rightarrow> nat) \<Rightarrow> js_file option \<Rightarrow> chat \<Rightarrow> chat" where
  "handleImageSelect toBlob selected st =
     (case selected of
        None \<Rightarrow> st
      | Some f \<Rightarrow>
          if \<not> startsWith (type' f) ''image/'' then st\<lparr>alerts := alerts st @ [ChooseImageAlert]\<rparr>
          else
            (let st1 = st\<lparr>previewMode := True\<rparr> in
             case prepareImageFile toBlob f of
               Failed err \<Rightarrow> st1\<lparr>previewMode := False, alerts := alerts st1 @ [ErrorAlert err]\<rparr>
             | Pending \<Rightarrow> st1
             | Fulfilled processedFile \<Rightarrow>
                 st1\<lparr>currentImage :=
                       Some \<lparr>file' = processedFile, originalName = name f,
                             processedName = name processedFile, originalSize = size' f,
                             processedSize = size' processedFile\<rparr>\<rparr>))"

section \<open>Identity carried by a request\<close>

text \<open>
  The places where a request can carry an identity (section 6 of the specification): the
  header \<^verbatim>\<open>X-Telegram-User-Id\<close>, and the fields \<^verbatim>\<open>telegram_user_id\<close> and \<^verbatim>\<open>user_id\<close> of
  the query string, of a multipart body or of a JSON body. \<open>identity_values\<close> lists every
  identity value of a request with its channel and field name.
\<close>

datatype channel = Header | Query | Body

definition identity_field :: "string \<Rightarrow> bool" where
  "identity_field k = (k = ''telegram_user_id'' \<or> k = ''user_id'')"

fun split_on :: "char \<Rightarrow> string \<Rightarrow> string list" where
  "split_on c [] = [[]]"
| "split_on c (x # xs) =
     (if x = c then [] # split_on c xs
      else (case split_on c xs of [] \<Rightarrow> [[x]] | r # rs \<Rightarrow> (x # r) # rs))"

definition header_identity :: "options \<Rightarrow> (channel \<times> string \<times> string) list" where
  "header_identity opts =
     (case headers opts of
        None \<Rightarrow> []
      | Some h \<Rightarrow>
          (case h ''X-Telegram-User-Id'' of
             None \<Rightarrow> [] | Some v \<Rightarrow> [(Header, ''X-Telegram-User-Id'', v)]))"

definition query_identity :: "string \<Rightarrow> (channel \<times> string \<times> string) list" where
  "query_identity url =
     (case dropWhile (\<lambda>c. c \<noteq> CHR ''?'') url of
        [] \<Rightarrow> []
      | q # query \<Rightarrow>
          concat (map (\<lambda>p. let k = takeWhile (\<lambda>c. c \<noteq> CHR ''='') p;
                                v = drop 1 (dropWhile (\<lambda>c. c \<noteq> CHR ''='') p)
                            in if identity_field k then [(Query, k, v)] else [])
                      (split_on CHR ''&'' query)))"

fun form_identity :: "form_data \<Rightarrow> (channel \<times> string \<times> string) list" where
  "form_identity [] = []"
| "form_identity ((k, FString v) # fd) =
     (if identity_field k then (Body, k, v) # form_identity fd else form_identity fd)"
| "form_identity ((k, FFile f) # fd) = form_identity fd"

fun fields_identity :: "(string \<times> json) list \<Rightarrow> (channel \<times> string \<times> string) list" where
  "fields_identity [] = []"
| "fields_identity ((k, JStr v) # fs) =
     (if identity_field k then (Body, k, v) # fields_identity fs else fields_identity fs)"
| "fields_identity ((k, j) # fs) = fields_identity fs"

definition body_identity ::
  "(string \<Rightarrow> js_error + json) \<Rightarrow> body \<Rightarrow> (channel \<times> string \<times> string) list" where
  "body_identity parse b =
     (case b of
        FormData fd \<Rightarrow> form_identity fd
      | Text s \<Rightarrow> (case parse s of Inr (JObj fs) \<Rightarrow> fields_identity fs | _ \<Rightarrow> [])
      | NoBody \<Rightarrow> [])"

definition identity_values ::
  "(string \<Rightarrow> js_error + json) \<Rightarrow> request \<Rightarrow> (channel \<times> string \<times> string) list" where
  "identity_values parse req =
     header_identity (snd req) @ query_identity (fst req) @ body_identity parse (body (snd req))"

text \<open>
  The entries that \<^verbatim>\<open>ChatAPI.sendMessage\<close> puts into the form before it hands the form to
  \<^verbatim>\<open>postFormData\<close>.
\<close>

definition message_entries :: "string \<Rightarrow> js_file option \<Rightarrow> form_data" where
  "message_entries message imageFile =
     (if message \<noteq> [] then [(''message'', FString message)] else [])
     @ (case imageFile of Some f \<Rightarrow> [(''image'', FFile f)] | None \<Rightarrow> [])"

text \<open>The identity values of the request that a call of the API client sends.\<close>

definition sent_identities ::
  "(string \<Rightarrow> js_error + json) \<Rightarrow> js_error + (request \<times> env)
     \<Rightarrow> js_error + (channel \<times> string \<times> string) list" where
  "sent_identities parse r =
     (case r of Inl err \<Rightarrow> Inl err | Inr (req, e) \<Rightarrow> Inr (identity_values parse req))"

text \<open>The invariant of section 3 of the specification: exactly one identity value.\<close>

definition carries_one_identity ::
  "(string \<Rightarrow> js_error + json) \<Rightarrow> js_error + (request \<times> env) \<Rightarrow> bool" where
  "carries_one_identity parse r =
     (case r of Inl err \<Rightarrow> False | Inr (req, e) \<Rightarrow> length (identity_values parse req) = 1)"

section \<open>A reference JSON codec\<close>

text \<open>
  An executable \<^verbatim>\<open>JSON.stringify\<close> and \<^verbatim>\<open>JSON.parse\<close> for the fragment of JSON without
  white space, with integer numbers, and with \<^verbatim>\<open>\"\<close> and \<^verbatim>\<open>\\\<close> as the only escapes. It
  instantiates the parameters \<open>parse\<close> and \<open>stringify\<close> at concrete requests.
\<close>

fun escape :: "string \<Rightarrow> string" where
  "escape [] = []"
| "escape (c # cs) =
     (if c = CHR 0x22 \<or> c = CHR 0x5C then CHR 0x5C # c # escape cs else c # escape cs)"

definition quote :: "string \<Rightarrow> string" where
  "quote s = [CHR 0x22] @ escape s @ [CHR 0x22]"

fun JSON_stringify :: "json \<Rightarrow> string" where
  "JSON_stringify JNull = ''null''"
| "JSON_stringify (JBool b) = (if b then ''true'' else ''false'')"
| "JSON_stringify (JNum n) = toString n"
| "JSON_stringify (JStr s) = quote s"
| "JSON_stringify (JArr xs) = ''['' @ join '','' (map JSON_stringify xs) @ '']''"
| "JSON_stringify (JObj fs) =
     ''{'' @ join '','' (map (\<lambda>kv. quote (fst kv) @ '':'' @ JSON_stringify (snd kv)) fs) @ ''}''"

fun parse_chars :: "string \<Rightarrow> (string \<times> string) option" where
  "parse_chars [] = None"
| "parse_chars (c # cs) =
     (if c = CHR 0x22 then Some ([], cs)
      else if c = CHR 0x5C then
        (case cs of
           [] \<Rightarrow> None
         | d # ds \<Rightarrow>
             if d = CHR 0x22 \<or> d = CHR 0x5C then map_option (apfst ((#) d)) (parse_chars ds)
             else None)
      else map_option (apfst ((#) c)) (parse_chars cs))"

definition digit_val :: "char \<Rightarrow> nat option" where
  "digit_val c = map_of (zip ''0123456789'' [0, 1, 2, 3, 4, 5, 6, 7, 8, 9]) c"

fun parse_digits :: "nat \<Rightarrow> string \<Rightarrow> nat \<times> string" where
  "parse_digits acc [] = (acc, [])"
| "parse_digits acc (c # cs) =
     (case digit_val c of None \<Rightarrow> (acc, c # cs) | Some d \<Rightarrow> parse_digits (10 * acc + d) cs)"

definition parse_number :: "string \<Rightarrow> (json \<times> string) option" where
  "parse_number s =
     (let neg = startsWith s ''-''; t = (if neg then drop 1 s else s) in
      if t = [] \<or> digit_val (hd t) = None then None
      else (case parse_digits 0 t of (n, r) \<Rightarrow> Some (JNum (if neg then - int n else int n), r)))"

text \<open>The first argument bounds the nesting depth and the number of members read.\<close>

fun parse_value :: "nat \<Rightarrow> string \<Rightarrow> (json \<times> string) option"
and parse_elements :: "nat \<Rightarrow> string \<Rightarrow> (json list \<times> string) option"
and parse_members :: "nat \<Rightarrow> string \<Rightarrow> ((string \<times> json) list \<times> string) option" where
  "parse_value 0 s = None"
| "parse_value (Suc n) s =
     (if startsWith s ''null'' then Some (JNull, drop 4 s)
      else if startsWith s ''true'' then Some (JBool True, drop 4 s)
      else if startsWith s ''false'' then Some (JBool False, drop 5 s)
      else if startsWith s [CHR 0x22] then map_option (apfst JStr) (parse_chars (drop 1 s))
      else if startsWith s ''[]'' then Some (JArr [], drop 2 s)
      else if startsWith s ''['' then map_option (apfst JArr) (parse_elements n (drop 1 s))
      else if startsWith s ''{}'' then Some (JObj [], drop 2 s)
      else if startsWith s ''{'' then map_option (apfst JObj) (parse_members n (drop 1 s))
      else parse_number s)"
| "parse_elements 0 s = None"
| "parse_elements (Suc n) s =
     (case parse_value n s of
        None \<Rightarrow> None
      | Some (v, r) \<Rightarrow>
          if startsWith r '','' then map_option (apfst ((#) v)) (parse_elements n (drop 1 r))
          else if startsWith r '']'' then Some ([v], drop 1 r)
          else None)"
| "parse_members 0 s = None"
| "parse_members (Suc n) s =
     (if startsWith s [CHR 0x22] then
        (case parse_chars (drop 1 s) of
           None \<Rightarrow> None
         | Some (k, r) \<Rightarrow>
             if startsWith r '':'' then
               (case parse_value n (drop 1 r) of
                  None \<Rightarrow> None
                | Some (v, r') \<Rightarrow>
                    if startsWith r' '','' then
                      map_option
                        (apfst (\<lambda>fs. (k, case map_of fs k of None \<Rightarrow> v | Some w \<Rightarrow> w)
                                       # filter (\<lambda>kv. fst kv \<noteq> k) fs))
                        (parse_members n (drop 1 r'))
                    else if startsWith r' ''}'' then Some ([(k, v)], drop 1 r')
                    else None)
             else None)
      else None)"

definition JSON_parse :: "string \<Rightarrow> js_error + json" where
  "JSON_parse s =
     (case parse_value (Suc (length s)) s of
        Some (v, []) \<Rightarrow> Inr v
      | _ \<Rightarrow> Inl SyntaxError)"

section \<open>Sessions\<close>

text \<open>The number of entries, or of properties, with a given name.\<close>

definition field_count :: "string \<Rightarrow> (string \<times> 'v) list \<Rightarrow> nat" where
  "field_count k fs = length (filter (\<lambda>kv. fst kv = k) fs)"

text \<open>An identity generated for the web starts with \<^verbatim>\<open>web_\<close>.\<close>

definition web_generated :: "string \<Rightarrow> bool" where
  "web_generated x = startsWith x ''web_''"

text \<open>
  What can happen in a page between two resolutions: the Telegram host makes its
  authenticated user available (the host script may finish loading after the page), the
  host takes its user data away again (it clears \<^verbatim>\<open>initDataUnsafe\<close> of its object), time
  passes and the random source advances, the stored identity is removed.
\<close>

datatype event =
    Resolve
  | HostIdentity tg_user
  | HostWithdraws
  | Tick nat string
  | StorageCleared

definition host_provides :: "tg_user \<Rightarrow> env \<Rightarrow> env" where
  "host_provides u e =
     e\<lparr>Telegram_WebApp :=
         Some (case Telegram_WebApp e of
                 None \<Rightarrow> \<lparr>initData = [], initDataUnsafe = Some \<lparr>user = Some u\<rparr>\<rparr>
               | Some w \<Rightarrow> w\<lparr>initDataUnsafe := Some \<lparr>user = Some u\<rparr>\<rparr>)\<rparr>"

definition host_withdraws :: "env \<Rightarrow> env" where
  "host_withdraws e =
     e\<lparr>Telegram_WebApp :=
         map_option (\<lambda>w. w\<lparr>initDataUnsafe := None\<rparr>) (Telegram_WebApp e)\<rparr>"

text \<open>
  The resolutions of a session, in order: for each call of \<^verbatim>\<open>getUserId\<close>, whether the
  Telegram identity was available at the call, and what the call returned.
\<close>

fun session :: "event list \<Rightarrow> env \<Rightarrow> (bool \<times> (js_error + string)) list" where
  "session [] e = []"
| "session (Resolve # evs) e =
     (telegram_identity e \<noteq> None, map_sum (\<lambda>err. err) fst (getUserId e))
     # session evs (case getUserId e of Inr (x, e') \<Rightarrow> e' | Inl err \<Rightarrow> e)"
| "session (HostIdentity u # evs) e = session evs (host_provides u e)"
| "session (HostWithdraws # evs) e = session evs (host_withdraws e)"
| "session (Tick t r # evs) e = session evs (e\<lparr>Date_now := t, Math_random_36 := r\<rparr>)"
| "session (StorageCleared # evs) e = session evs (e\<lparr>localStorage := Map.empty\<rparr>)"

text \<open>
  What the chat manager and the API client see of the Telegram user: the test
  \<^verbatim>\<open>window.TelegramWebApp && window.TelegramWebApp.isInTelegram()\<close>, whose flag was fixed
  when the integration script loaded, and behind it \<^verbatim>\<open>getTelegramUser()\<close>.
\<close>

definition in_telegram :: "env \<Rightarrow> bool" where
  "in_telegram e = (case TelegramWebApp e of None \<Rightarrow> False | Some a \<Rightarrow> isInTelegram a)"

definition adapter_user :: "env \<Rightarrow> tg_user option" where
  "adapter_user e = (case TelegramWebApp e of None \<Rightarrow> None | Some a \<Rightarrow> getTelegramUser a e)"

section \<open>Example environments\<close>

text \<open>A plain browser on its first visit: no Telegram host, nothing stored.\<close>

definition browser_env :: env where
  "browser_env =
     load_adapter
       \<lparr>Telegram_WebApp = None, TelegramWebApp = None, localStorage = Map.empty,
        quota_exceeded = False, Date_now = 1700000000000, Math_random_36 = ''0.4fzyo82mvyr'',
        console = []\<rparr>"

text \<open>The same browser with a storage that refuses every write.\<close>

definition full_storage_env :: env where
  "full_storage_env = browser_env\<lparr>quota_exceeded := True\<rparr>"

text \<open>A browser that holds a web identity from an earlier visit.\<close>

definition returning_env :: env where
  "returning_env =
     browser_env\<lparr>localStorage := [''chat_user_id'' \<mapsto> ''web_1690000000000_k3j9x0q1zab'']\<rparr>"

text \<open>The Telegram Mini-App host with the authenticated user 555.\<close>

definition telegram_env :: env where
  "telegram_env =
     load_adapter
       \<lparr>Telegram_WebApp =
          Some \<lparr>initData = ''query_id=AAE'',
                initDataUnsafe = Some \<lparr>user = Some \<lparr>id' = 555\<rparr>\<rparr>\<rparr>,
        TelegramWebApp = None, localStorage = Map.empty,
        quota_exceeded = False, Date_now = 1700000000000, Math_random_36 = ''0.4fzyo82mvyr'',
        console = []\<rparr>"

section \<open>Example requests and files\<close>

text \<open>A chat POST whose JSON body is cut off.\<close>

definition malformed_json_options :: options where
  "malformed_json_options =
     \<lparr>method' = Some ''POST'', headers = Some [''Content-Type'' \<mapsto> ''application/json''],
      body = Text ''{not json''\<rparr>"

text \<open>A PDF document, an oversized photograph, and an ordinary small photograph.\<close>

definition pdf_file :: js_file where
  "pdf_file = \<lparr>name = ''report.pdf'', type' = ''application/pdf'', size' = 120000, image' = None\<rparr>"

definition huge_photo :: js_file where
  "huge_photo =
     \<lparr>name = ''scan.png'', type' = ''image/png'', size' = 60 * 1024 * 1024,
      image' = Some (9000, 6000)\<rparr>"

text \<open>A chat window that has just been opened.\<close>

definition fresh_chat :: chat where
  "fresh_chat =
     \<lparr>currentImage = None, chatHistory = [], currentUserId = None, isProcessing = False,
      isHistoryLoaded = False, messages = [], alerts = [], previewMode = False, sent = []\<rparr>"

text \<open>A successful reply that echoes the identity \<^verbatim>\<open>tg_777\<close>.\<close>

definition echo_reply :: reply where
  "echo_reply =
     \<lparr>success = True, user_id = Some ''tg_777'', response = Some ''ok'', history = None,
      error = None\<rparr>"

text \<open>
  The options with which \<^verbatim>\<open>makeRequest\<close> calls \<^verbatim>\<open>fetch\<close> for \<^verbatim>\<open>ChatAPI.clearHistory()\<close> in a
  plain browser, and a multipart chat message on which the caller has set \<^verbatim>\<open>user_id\<close>.
\<close>

definition clear_options :: options where
  "clear_options =
     \<lparr>method' = Some ''POST'', headers = Some [''Content-Type'' \<mapsto> ''application/json''],
      body = Text ''{}''\<rparr>"

definition tagged_form_options :: options where
  "tagged_form_options =
     \<lparr>method' = Some ''POST'', headers = Some Map.empty,
      body = FormData [(''message'', FString ''hi''), (''user_id'', FString ''custom_42'')]\<rparr>"

definition plain_form_options :: options where
  "plain_form_options =
     \<lparr>method' = Some ''POST'', headers = Some Map.empty,
      body = FormData [(''message'', FString ''hi'')]\<rparr>"

text \<open>
  A visit during which the Telegram host's user 555 becomes available after the first
  resolution, and the stored identity is removed later.
\<close>

definition late_host_visit :: "event list" where
  "late_host_visit =
     [Resolve, HostIdentity \<lparr>id' = 555\<rparr>, Resolve, StorageCleared,
      Tick 1700000005000 ''0.9zzk1x'', Resolve]"

text \<open>
  The plain browser after the Telegram host's user 555 has become available: the
  integration script had loaded before, without a host.
\<close>

definition late_host_env :: env where
  "late_host_env = host_provides \<lparr>id' = 555\<rparr> browser_env"

section \<open>Aspect ratio\<close>

text \<open>
  The relative deviation of the aspect ratio (width over height) of an output size from
  that of an input size.
\<close>

definition aspect :: "nat \<times> nat \<Rightarrow> rat" where
  "aspect wh = of_nat (fst wh) / of_nat (snd wh)"

definition aspect_deviation :: "nat \<times> nat \<Rightarrow> nat \<times> nat \<Rightarrow> rat" where
  "aspect_deviation inp outp = \<bar>aspect outp - aspect inp\<bar> / aspect inp"

text \<open>A 4000 by 2000 photograph of 5 MB.\<close>

definition large_photo :: js_file where
  "large_photo =
     \<lparr>name = ''IMG_0042.PNG'', type' = ''image/png'', size' = 5 * 1024 * 1024,
      image' = Some (4000, 2000)\<rparr>"

text \<open>A panorama of 10000 by 255 pixels, and a strip of 5000 by 4 pixels.\<close>

definition panorama :: js_file where
  "panorama =
     \<lparr>name = ''pano.jpg'', type' = ''image/jpeg'', size' = 3 * 1024 * 1024,
      image' = Some (10000, 255)\<rparr>"

definition thin_strip :: js_file where
  "thin_strip =
     \<lparr>name = ''rule.png'', type' = ''image/png'', size' = 3 * 1024 * 1024,
      image' = Some (5000, 4)\<rparr>"

text \<open>An encoder for the examples: three bits for each pixel of the canvas.\<close>

definition sample_toBlob :: "js_file \<Rightarrow> nat \<times> nat \<Rightarrow> rat \<Rightarrow> nat" where
  "sample_toBlob f canvas quality = fst canvas * snd canvas * 3 div 8"

section \<open>Properties of the retry helper\<close>






section \<open>Properties of the identity resolver\<close>

lemmas env_defs =
  browser_env_def full_storage_env_def returning_env_def telegram_env_def load_adapter_def

lemma digits10_nonempty: "digits10 n \<noteq> []"
  by (subst digits10.simps) simp

lemma toString_nonempty: "toString i \<noteq> []"
  by (simp add: toString_def digits10_nonempty)

lemma getUserId_telegram:
  "telegram_identity e = Some i \<Longrightarrow> getUserId e = Inr (''tg_'' @ toString i, e)"
  by (simp add: getUserId_def)

lemma getUserId_stored:
  "telegram_identity e = None \<Longrightarrow> localStorage e ''chat_user_id'' = Some s \<Longrightarrow> s \<noteq> []
   \<Longrightarrow> getUserId e = Inr (s, e)"
  by (simp add: getUserId_def)

lemma getUserId_generated:
  "telegram_identity e = None
   \<Longrightarrow> localStorage e ''chat_user_id'' = None \<or> localStorage e ''chat_user_id'' = Some []
   \<Longrightarrow> getUserId e =
         (if quota_exceeded e then Inl QuotaExceededError
          else Inr (fresh_id e,
                    console_log ''Generated new user_id:'' (fresh_id e)
                      (e\<lparr>localStorage := (localStorage e)(''chat_user_id'' \<mapsto> fresh_id e)\<rparr>)))"
  by (auto simp: getUserId_def setItem_def Let_def fresh_id_def)

lemma getUserId_cases:
  assumes "getUserId e = Inr (x, e1)"
  obtains (telegram) i where "telegram_identity e = Some i" "x = ''tg_'' @ toString i" "e1 = e"
        | (stored) "telegram_identity e = None" "localStorage e ''chat_user_id'' = Some x" "x \<noteq> []" "e1 = e"
        | (generated) "telegram_identity e = None" "\<not> quota_exceeded e" "x = fresh_id e"
            "e1 = console_log ''Generated new user_id:'' (fresh_id e)
                      (e\<lparr>localStorage := (localStorage e)(''chat_user_id'' \<mapsto> fresh_id e)\<rparr>)"
proof (cases "telegram_identity e")
  case (Some i)
  from assms have "x = ''tg_'' @ toString i" "e1 = e"
    by (simp_all add: getUserId_telegram[OF Some])
  then show ?thesis by (rule telegram[OF Some])
next
  case None
  show ?thesis
  proof (cases "localStorage e ''chat_user_id'' = None \<or> localStorage e ''chat_user_id'' = Some []")
    case True
    note gen = getUserId_generated[OF None True]
    show ?thesis
    proof (cases "quota_exceeded e")
      case q: True
      with assms gen show ?thesis by simp
    next
      case q: False
      from assms gen q have "x = fresh_id e"
        "e1 = console_log ''Generated new user_id:'' (fresh_id e)
                      (e\<lparr>localStorage := (localStorage e)(''chat_user_id'' \<mapsto> fresh_id e)\<rparr>)"
        by auto
      then show ?thesis by (rule generated[OF None q])
    qed
  next
    case False
    then obtain s where s: "localStorage e ''chat_user_id'' = Some s" "s \<noteq> []" by auto
    from assms have "x = s" "e1 = e" by (simp_all add: getUserId_stored[OF None s])
    then show ?thesis using stored[OF None _ _ ] s by blast
  qed
qed

lemma fresh_id_nonempty: "fresh_id e \<noteq> []"
  by (simp add: fresh_id_def)

lemma telegram_identity_console [simp]:
  "telegram_identity (console_log l v e) = telegram_identity e"
  by (simp add: telegram_identity_def console_log_def)

lemma telegram_identity_storage [simp]:
  "telegram_identity (e\<lparr>localStorage := m\<rparr>) = telegram_identity e"
  by (simp add: telegram_identity_def)

lemma getUserId_nonempty: "getUserId e = Inr (x, e1) \<Longrightarrow> x \<noteq> []"
  by (erule getUserId_cases) (simp_all add: toString_nonempty fresh_id_nonempty)

lemma getUserId_again: "getUserId e = Inr (x, e1) \<Longrightarrow> getUserId e1 = Inr (x, e1)"
proof (erule getUserId_cases)
  fix i assume "telegram_identity e = Some i" "x = ''tg_'' @ toString i" "e1 = e"
  then show ?thesis by (simp add: getUserId_telegram)
next
  assume "telegram_identity e = None" "localStorage e ''chat_user_id'' = Some x" "x \<noteq> []" "e1 = e"
  then show ?thesis by (simp add: getUserId_stored)
next
  assume a: "telegram_identity e = None" "\<not> quota_exceeded e" "x = fresh_id e"
    "e1 = console_log ''Generated new user_id:'' (fresh_id e)
            (e\<lparr>localStorage := (localStorage e)(''chat_user_id'' \<mapsto> fresh_id e)\<rparr>)"
  have t: "telegram_identity e1 = None" using a by simp
  have s: "localStorage e1 ''chat_user_id'' = Some x" using a by (simp add: console_log_def)
  show ?thesis using getUserId_stored[OF t s] a fresh_id_nonempty by simp
qed

text \<open>
  C2, as stated, fails: in a plain browser on its first visit whose storage refuses the
  write, \<^verbatim>\<open>localStorage.setItem\<close> throws inside \<^verbatim>\<open>getUserId\<close>, nothing catches the exception,
  and the call returns no token.
\<close>

theorem getUserId_throws_when_storage_full:
  "getUserId full_storage_env = Inl QuotaExceededError"
  by (simp add: getUserId_def telegram_identity_def setItem_def env_defs)

text \<open>
  C2, amended. \<^verbatim>\<open>getUserId\<close> returns a non-empty token whenever it needs no write (a
  Telegram identity is available, or a non-empty token is stored) or the write succeeds.
  When it has to generate a token and the write fails, the exception of the write leaves
  \<^verbatim>\<open>getUserId\<close> and no token is returned.
\<close>

theorem getUserId_returns_unless_write_fails:
  "(telegram_identity e \<noteq> None \<or> (\<exists>s. localStorage e ''chat_user_id'' = Some s \<and> s \<noteq> [])
      \<or> \<not> quota_exceeded e
      \<longrightarrow> (\<exists>x e'. getUserId e = Inr (x, e') \<and> x \<noteq> []))
   \<and> (telegram_identity e = None
        \<and> (localStorage e ''chat_user_id'' = None \<or> localStorage e ''chat_user_id'' = Some [])
        \<and> quota_exceeded e
      \<longrightarrow> getUserId e = Inl QuotaExceededError)"
  by (auto simp: getUserId_def setItem_def Let_def toString_nonempty split: option.splits)

theorem getUserId_returns_unless_write_fails_witness:
  "\<not> quota_exceeded browser_env \<and> \<not> isl (getUserId browser_env)
   \<and> telegram_identity full_storage_env = None
   \<and> localStorage full_storage_env ''chat_user_id'' = None
   \<and> quota_exceeded full_storage_env
   \<and> getUserId full_storage_env = Inl QuotaExceededError"
  using getUserId_returns_unless_write_fails[of browser_env]
        getUserId_returns_unless_write_fails[of full_storage_env]
  by (auto simp: telegram_identity_def env_defs)

section \<open>Properties of the injector\<close>

text \<open>
  The patched \<^verbatim>\<open>fetch\<close> passes on, untouched, every request that is not a POST or whose
  URL does not contain \<^verbatim>\<open>/api/chat\<close>; the patched \<^verbatim>\<open>send\<close> passes on every body whose
  request was opened on a URL that does not contain \<^verbatim>\<open>/api/chat\<close>.
\<close>

lemma fetch_patched_outside_guard:
  "\<not> (includes' url ''/api/chat'' \<and> method' opts = Some ''POST'')
   \<Longrightarrow> fetch_patched parse stringify url opts e = Inr ((url, opts), e)"
  by (auto simp: fetch_patched_def)

lemma xhr_send_outside_chat:
  "url' x = Some u \<Longrightarrow> \<not> includes' u ''/api/chat'' \<Longrightarrow> xhr_send b x e = Inr (b, e)"
  by (simp add: xhr_send_def)

text \<open>
  C3 does not hold for the \<^verbatim>\<open>XMLHttpRequest\<close> interceptor: the patched \<^verbatim>\<open>open\<close> records the
  URL but not the method, and the patched \<^verbatim>\<open>send\<close> tests the URL only. A request opened
  with \<^verbatim>\<open>PUT\<close> on \<^verbatim>\<open>/api/chat/settings\<close> and sent with a multipart body that has no
  \<^verbatim>\<open>user_id\<close> leaves with \<^verbatim>\<open>user_id\<close> appended to its body.
\<close>

theorem xhr_send_injects_without_POST:
  "opened (xhr_open ''PUT'' ''/api/chat/settings'' xhr_new) = Some (''PUT'', ''/api/chat/settings'')
   \<and> map_sum id fst
        (xhr_send (FormData [(''theme'', FString ''dark'')])
           (xhr_open ''PUT'' ''/api/chat/settings'' xhr_new) returning_env)
      = Inr (FormData [(''theme'', FString ''dark''),
                       (''user_id'', FString ''web_1690000000000_k3j9x0q1zab'')])"
  by (simp add: xhr_send_def xhr_open_def xhr_new_def inject_form_def has_def append'_def
        getUserId_def telegram_identity_def console_log_def env_defs digits10.simps)

lemma malformed_parse: "JSON_parse ''{not json'' = Inl SyntaxError"
  by (simp add: JSON_parse_def)

text \<open>
  C6. A POST to a chat URL whose body is sent as JSON (the \<^verbatim>\<open>Content-Type\<close> header is
  \<^verbatim>\<open>application/json\<close>, which is how the injector recognises a JSON body) and does not
  parse: the original \<^verbatim>\<open>fetch\<close> is called with the same URL and the same options, body
  included, and the console receives the parse error.
\<close>

theorem fetch_patched_malformed_json:
  assumes "includes' url ''/api/chat''" "method' opts = Some ''POST''"
      and "\<forall>fd. body opts \<noteq> FormData fd" "json_content_type opts"
      and "parse (body_text (body opts)) = Inl err"
  shows "fetch_patched parse stringify url opts e =
           Inr ((url, opts), console_error ''Error parsing JSON body:'' err e)"
  using assms by (cases "body opts") (simp_all add: fetch_patched_def inject_json_def)

theorem fetch_patched_malformed_json_witness:
  "includes' ''/api/chat/clear'' ''/api/chat''
   \<and> method' malformed_json_options = Some ''POST''
   \<and> json_content_type malformed_json_options
   \<and> JSON_parse (body_text (body malformed_json_options)) = Inl SyntaxError
   \<and> fetch_patched JSON_parse JSON_stringify ''/api/chat/clear'' malformed_json_options browser_env =
       Inr ((''/api/chat/clear'', malformed_json_options),
            console_error ''Error parsing JSON body:'' SyntaxError browser_env)"
proof -
  have a: "includes' ''/api/chat/clear'' ''/api/chat''" by simp
  have b: "method' malformed_json_options = Some ''POST''"
    by (simp add: malformed_json_options_def)
  have c: "\<forall>fd. body malformed_json_options \<noteq> FormData fd"
    by (simp add: malformed_json_options_def)
  have d: "json_content_type malformed_json_options"
    by (simp add: malformed_json_options_def json_content_type_def)
  have p: "JSON_parse (body_text (body malformed_json_options)) = Inl SyntaxError"
    by (simp add: malformed_json_options_def body_text_def malformed_parse)
  show ?thesis
    using a b c d p
      fetch_patched_malformed_json[where url = "''/api/chat/clear''" and opts = malformed_json_options
        and parse = JSON_parse and err = SyntaxError and stringify = JSON_stringify and e = browser_env]
    by blast
qed

section \<open>Properties of the image preparation\<close>

lemma pdf_not_allowed: "''application/pdf'' \<notin> set default_allowedTypes"
  by (simp add: default_allowedTypes_def)

text \<open>
  C9. For a file of type \<^verbatim>\<open>application/pdf\<close>, or of more than 50 MB,
  \<^verbatim>\<open>prepareImageFile\<close> rejects; the handler of the file input shows one dialog to the user,
  keeps the current image as it was (the file is never attached to a message), and no
  request leaves the page.
\<close>

theorem prepareImageFile_rejects:
  assumes "type' f = ''application/pdf'' \<or> size' f > 50 * 1024 * 1024"
  shows "(\<exists>err. prepareImageFile toBlob f = Failed err)
       \<and> (\<exists>a. alerts (handleImageSelect toBlob (Some f) st) = alerts st @ [a])
       \<and> currentImage (handleImageSelect toBlob (Some f) st) = currentImage st
       \<and> sent (handleImageSelect toBlob (Some f) st) = sent st"
proof -
  have rej: "\<exists>err. prepareImageFile toBlob f = Failed err"
    using assms pdf_not_allowed
    by (auto simp: prepareImageFile_def validateFileType_def validateFileSize_def)
  then obtain err where err: "prepareImageFile toBlob f = Failed err" ..
  show ?thesis
    using rej by (simp add: handleImageSelect_def err)
qed

theorem prepareImageFile_rejects_witness:
  "type' pdf_file = ''application/pdf''
   \<and> prepareImageFile (\<lambda>f c q. 0) pdf_file = Failed (UnsupportedFileType default_allowedTypes)
   \<and> alerts (handleImageSelect (\<lambda>f c q. 0) (Some pdf_file) fresh_chat) = [ChooseImageAlert]
   \<and> size' huge_photo > 50 * 1024 * 1024
   \<and> prepareImageFile (\<lambda>f c q. 0) huge_photo = Failed (FileTooLarge 50)
   \<and> alerts (handleImageSelect (\<lambda>f c q. 0) (Some huge_photo) fresh_chat)
       = [ErrorAlert (FileTooLarge 50)]
   \<and> currentImage (handleImageSelect (\<lambda>f c q. 0) (Some huge_photo) fresh_chat) = None
   \<and> sent (handleImageSelect (\<lambda>f c q. 0) (Some huge_photo) fresh_chat) = []"
  using prepareImageFile_rejects[of pdf_file "\<lambda>f c q. 0" fresh_chat]
        prepareImageFile_rejects[of huge_photo "\<lambda>f c q. 0" fresh_chat]
  by (simp add: pdf_file_def huge_photo_def fresh_chat_def prepareImageFile_def
        handleImageSelect_def validateFileType_def validateFileSize_def default_allowedTypes_def)

section \<open>Properties of the scaled size\<close>

lemma dev_wide:
  fixes x :: rat and f :: int
  assumes "100 \<le> f" "of_int f \<le> x" "x < of_int f + 1"
  shows "\<bar>1200 / of_int f - 1200 / x\<bar> / (1200 / x) < 1 / 100"
proof -
  have f0: "(0::rat) < of_int f" using assms(1) by simp
  have x0: "0 < x" using f0 assms(2) by linarith
  have le: "1200 / x \<le> 1200 / of_int f"
    using f0 x0 assms(2) by (simp add: frac_le)
  then have "\<bar>1200 / of_int f - 1200 / x\<bar> / (1200 / x) = (1200 / of_int f - 1200 / x) / (1200 / x)"
    by simp
  also have "\<dots> = (x - of_int f) / of_int f"
    using f0 x0 by (simp add: field_simps)
  also have "\<dots> < 1 / of_int f"
    using f0 assms(3) by (simp add: divide_strict_right_mono)
  also have "\<dots> \<le> 1 / 100"
    using assms(1) f0 by (simp add: frac_le)
  finally show ?thesis .
qed

lemma dev_tall:
  fixes x :: rat and f :: int
  assumes "100 \<le> f" "of_int f \<le> x" "x < of_int f + 1"
  shows "\<bar>of_int f / 1200 - x / 1200\<bar> / (x / 1200) < 1 / 100"
proof -
  have f0: "(0::rat) < of_int f" using assms(1) by simp
  have x0: "0 < x" using f0 assms(2) by linarith
  have "(100::rat) \<le> of_int f" using assms(1) by linarith
  then have x100: "100 \<le> x" using assms(2) by linarith
  have "of_int f / 1200 - x / 1200 \<le> 0" using assms(2) by simp
  then have "\<bar>of_int f / 1200 - x / 1200\<bar> = x / 1200 - of_int f / 1200" by linarith
  then have "\<bar>of_int f / 1200 - x / 1200\<bar> / (x / 1200) = (x / 1200 - of_int f / 1200) / (x / 1200)"
    by simp
  also have "\<dots> = (x - of_int f) / x"
    using x0 by (simp add: field_simps)
  also have "\<dots> < 1 / x"
    using x0 assms(3) by (simp add: divide_strict_right_mono)
  also have "\<dots> \<le> 1 / 100"
    using x100 x0 by (simp add: frac_le)
  finally show ?thesis .
qed

lemma canvas_size_beyond:
  assumes "1200 < w \<or> 1200 < h"
  shows "canvas_size w h = (if h < w then (1200, h * 1200 div w) else (w * 1200 div h, 1200))"
  using assms by (simp add: canvas_size_def maxDimension_def)

text \<open>The short edge of the canvas is the integer part of the exact quotient.\<close>

lemma short_floor:
  "\<lfloor>(of_nat a * 1200 :: rat) / of_nat b\<rfloor> = int (a * 1200 div b)"
  using floor_divide_of_nat_eq[of "a * 1200" b, where ?'a = rat] by simp

lemma short_bounds:
  "(of_nat (a * 1200 div b) :: rat) \<le> (of_nat a * 1200) / of_nat b"
  "(of_nat a * 1200 :: rat) / of_nat b < of_nat (a * 1200 div b) + 1"
proof -
  let ?x = "(of_nat a * 1200 :: rat) / of_nat b"
  have "of_int \<lfloor>?x\<rfloor> \<le> ?x" by linarith
  then show "(of_nat (a * 1200 div b) :: rat) \<le> ?x" by (simp add: short_floor)
  have "?x < of_int \<lfloor>?x\<rfloor> + 1" by linarith
  then show "?x < of_nat (a * 1200 div b) + 1" by (simp add: short_floor)
qed

lemma short_le:
  assumes "(a::nat) \<le> b" "0 < b"
  shows "a * 1200 div b \<le> 1200"
proof -
  have "a * 1200 div b \<le> b * 1200 div b"
    by (rule div_le_mono) (use assms(1) in simp)
  then show ?thesis using assms(2) by simp
qed

lemma short_ge:
  assumes "b \<le> 12 * (a::nat)" "0 < b"
  shows "100 \<le> a * 1200 div b"
proof -
  have "100 * b \<le> a * 1200" using assms(1) by simp
  then show ?thesis using assms(2) by (simp add: less_eq_div_iff_mult_less_eq)
qed

lemma short_pos:
  assumes "0 < (b::nat)"
  shows "a * 1200 div b = 0 \<longleftrightarrow> 1200 * a < b"
  using assms by (auto simp: div_eq_0_iff mult.commute)

lemma compressImage_drawn:
  assumes "image' f = Some (w, h)" "fst (canvas_size w h) \<noteq> 0" "snd (canvas_size w h) \<noteq> 0"
  shows "compressImage toBlob f maxSizeMB quality =
           Some \<lparr>name = strip_extension (name f) @ ''_compressed.jpg'', type' = ''image/jpeg'',
                 size' = toBlob f (canvas_size w h) quality, image' = Some (canvas_size w h)\<rparr>"
  using assms by (simp add: compressImage_def Let_def)

lemma compressImage_empty:
  assumes "image' f = Some (w, h)" "fst (canvas_size w h) = 0 \<or> snd (canvas_size w h) = 0"
  shows "compressImage toBlob f maxSizeMB quality =
           Some \<lparr>name = strip_extension (name f) @ ''_compressed.jpg'', type' = ''image/jpeg'',
                 size' = 4, image' = None\<rparr>"
  using assms by (auto simp: compressImage_def Let_def)

lemma strip_pano: "strip_extension ''pano.jpg'' = ''pano''"
  by (simp add: strip_extension_def Let_def)

text \<open>
  C8, as stated for every image beyond 1200 pixels, fails: a panorama of 10000 by 255
  pixels is drawn on a canvas of 1200 by 30 pixels (the computed height 30.6 loses its
  fraction when it is assigned to the canvas), the compressed file is a JPEG of that size,
  and its aspect ratio differs from that of the input by 2 per cent.
\<close>

theorem compressImage_elongated_counterexample:
  "canvas_size 10000 255 = (1200, 30)
   \<and> compressImage sample_toBlob panorama 2 (85 / 100) =
       Some \<lparr>name = ''pano_compressed.jpg'', type' = ''image/jpeg'', size' = 13500,
             image' = Some (1200, 30)\<rparr>
   \<and> aspect_deviation (10000, 255) (1200, 30) = 1 / 50
   \<and> \<not> aspect_deviation (10000, 255) (1200, 30) < 1 / 100"
  by (simp add: canvas_size_def maxDimension_def compressImage_def panorama_def strip_pano
        sample_toBlob_def aspect_deviation_def aspect_def Let_def)

text \<open>
  C8, amended. A 4000 by 2000 image gives a JPEG of 1200 by 600 pixels. For every image
  with a longest edge of more than 1200 pixels, the longest edge of the canvas is exactly
  1200 pixels and its other edge is the shorter edge of the input times 1200, divided by
  the longer one and rounded down to whole pixels. If that is at least one pixel (the
  longer edge of the input is at most 1200 times the shorter one), the compressed file is
  a JPEG of the size of the canvas. Its aspect ratio deviates from that of the input by
  less than 1 per cent whenever the longer edge of the input is at most 12 times the
  shorter one (the shorter edge of the output is then at least 100 pixels). If the other
  edge rounds down to zero, the canvas is empty and the file that is returned holds no
  image but the four characters \<^verbatim>\<open>null\<close>.
\<close>

theorem compressImage_dimensions:
  assumes "0 < w" "0 < h" "1200 < w \<or> 1200 < h" "image' f = Some (w, h)"
  shows "canvas_size w h = (if h < w then (1200, h * 1200 div w) else (w * 1200 div h, 1200))
       \<and> max (fst (canvas_size w h)) (snd (canvas_size w h)) = 1200
       \<and> (max w h \<le> 1200 * min w h \<longrightarrow>
            compressImage toBlob f maxSizeMB quality =
              Some \<lparr>name = strip_extension (name f) @ ''_compressed.jpg'',
                    type' = ''image/jpeg'', size' = toBlob f (canvas_size w h) quality,
                    image' = Some (canvas_size w h)\<rparr>)
       \<and> (1200 * min w h < max w h \<longrightarrow>
            compressImage toBlob f maxSizeMB quality =
              Some \<lparr>name = strip_extension (name f) @ ''_compressed.jpg'',
                    type' = ''image/jpeg'', size' = 4, image' = None\<rparr>)
       \<and> (max w h \<le> 12 * min w h \<longrightarrow> aspect_deviation (w, h) (canvas_size w h) < 1 / 100)"
proof (cases "h < w")
  case True
  let ?q = "h * 1200 div w"
  let ?x = "(of_nat h * 1200 :: rat) / of_nat w"
  have cs: "canvas_size w h = (1200, ?q)" using canvas_size_beyond[OF assms(3)] True by simp
  have le: "?q \<le> 1200" using short_le[of h w] True assms(1) by simp
  have A: "canvas_size w h = (if h < w then (1200, h * 1200 div w) else (w * 1200 div h, 1200))"
    using canvas_size_beyond[OF assms(3)] .
  have B: "max (fst (canvas_size w h)) (snd (canvas_size w h)) = 1200" using cs le by simp
  have zero: "?q = 0 \<longleftrightarrow> 1200 * h < w" using short_pos[OF assms(1), of h] .
  have C: "compressImage toBlob f maxSizeMB quality =
              Some \<lparr>name = strip_extension (name f) @ ''_compressed.jpg'',
                    type' = ''image/jpeg'', size' = toBlob f (canvas_size w h) quality,
                    image' = Some (canvas_size w h)\<rparr>"
    if "max w h \<le> 1200 * min w h"
  proof -
    from that True have "\<not> 1200 * h < w" by simp
    then have "?q \<noteq> 0" using zero by simp
    then show ?thesis using compressImage_drawn[OF assms(4)] cs by simp
  qed
  have D: "compressImage toBlob f maxSizeMB quality =
              Some \<lparr>name = strip_extension (name f) @ ''_compressed.jpg'',
                    type' = ''image/jpeg'', size' = 4, image' = None\<rparr>"
    if "1200 * min w h < max w h"
  proof -
    from that True have "1200 * h < w" by simp
    then have "?q = 0" using zero by simp
    then show ?thesis using compressImage_empty[OF assms(4)] cs by simp
  qed
  have E: "aspect_deviation (w, h) (canvas_size w h) < 1 / 100"
    if "max w h \<le> 12 * min w h"
  proof -
    from that True have "w \<le> 12 * h" by simp
    then have q100: "100 \<le> ?q" using short_ge[of w h] assms(1) by simp
    then have f100: "100 \<le> int ?q" by linarith
    have b1: "of_int (int ?q) \<le> ?x" using short_bounds(1)[of h w] by simp
    have b2: "?x < of_int (int ?q) + 1" using short_bounds(2)[of h w] by simp
    have asp: "aspect (w, h) = 1200 / ?x" using assms(1,2) by (simp add: aspect_def)
    have eq: "aspect (canvas_size w h) = 1200 / of_int (int ?q)" by (simp add: cs aspect_def)
    show ?thesis
      unfolding aspect_deviation_def asp eq using dev_wide[OF f100 b1 b2] .
  qed
  show ?thesis using A B C D E by blast
next
  case False
  then have wh: "w \<le> h" by simp
  let ?q = "w * 1200 div h"
  let ?x = "(of_nat w * 1200 :: rat) / of_nat h"
  have cs: "canvas_size w h = (?q, 1200)" using canvas_size_beyond[OF assms(3)] False by simp
  have le: "?q \<le> 1200" using short_le[of w h] wh assms(2) by simp
  have A: "canvas_size w h = (if h < w then (1200, h * 1200 div w) else (w * 1200 div h, 1200))"
    using canvas_size_beyond[OF assms(3)] .
  have B: "max (fst (canvas_size w h)) (snd (canvas_size w h)) = 1200" using cs le by simp
  have zero: "?q = 0 \<longleftrightarrow> 1200 * w < h" using short_pos[OF assms(2), of w] .
  have C: "compressImage toBlob f maxSizeMB quality =
              Some \<lparr>name = strip_extension (name f) @ ''_compressed.jpg'',
                    type' = ''image/jpeg'', size' = toBlob f (canvas_size w h) quality,
                    image' = Some (canvas_size w h)\<rparr>"
    if "max w h \<le> 1200 * min w h"
  proof -
    from that wh have "\<not> 1200 * w < h" by simp
    then have "?q \<noteq> 0" using zero by simp
    then show ?thesis using compressImage_drawn[OF assms(4)] cs by simp
  qed
  have D: "compressImage toBlob f maxSizeMB quality =
              Some \<lparr>name = strip_extension (name f) @ ''_compressed.jpg'',
                    type' = ''image/jpeg'', size' = 4, image' = None\<rparr>"
    if "1200 * min w h < max w h"
  proof -
    from that wh have "1200 * w < h" by simp
    then have "?q = 0" using zero by simp
    then show ?thesis using compressImage_empty[OF assms(4)] cs by simp
  qed
  have E: "aspect_deviation (w, h) (canvas_size w h) < 1 / 100"
    if "max w h \<le> 12 * min w h"
  proof -
    from that wh have "h \<le> 12 * w" by simp
    then have q100: "100 \<le> ?q" using short_ge[of h w] assms(2) by simp
    then have f100: "100 \<le> int ?q" by linarith
    have b1: "of_int (int ?q) \<le> ?x" using short_bounds(1)[of w h] by simp
    have b2: "?x < of_int (int ?q) + 1" using short_bounds(2)[of w h] by simp
    have asp: "aspect (w, h) = ?x / 1200" using assms(1,2) by (simp add: aspect_def)
    have eq: "aspect (canvas_size w h) = of_int (int ?q) / 1200" by (simp add: cs aspect_def)
    show ?thesis
      unfolding aspect_deviation_def asp eq using dev_tall[OF f100 b1 b2] .
  qed
  show ?thesis using A B C D E by blast
qed

theorem compressImage_dimensions_witness:
  "canvas_size 4000 2000 = (1200, 600)
   \<and> max (fst (canvas_size 4000 2000)) (snd (canvas_size 4000 2000)) = 1200
   \<and> compressImage sample_toBlob large_photo 2 (85 / 100) =
       Some \<lparr>name = ''IMG_0042_compressed.jpg'', type' = ''image/jpeg'', size' = 270000,
             image' = Some (1200, 600)\<rparr>
   \<and> aspect_deviation (4000, 2000) (canvas_size 4000 2000) < 1 / 100
   \<and> canvas_size 5000 4 = (1200, 0)
   \<and> compressImage sample_toBlob thin_strip 2 (85 / 100) =
       Some \<lparr>name = ''rule_compressed.jpg'', type' = ''image/jpeg'', size' = 4, image' = None\<rparr>"
proof -
  have p: "image' large_photo = Some (4000, 2000)" by (simp add: large_photo_def)
  have n: "strip_extension (name large_photo) = ''IMG_0042''"
    by (simp add: large_photo_def strip_extension_def Let_def)
  have t: "image' thin_strip = Some (5000, 4)" by (simp add: thin_strip_def)
  have m: "strip_extension (name thin_strip) = ''rule''"
    by (simp add: thin_strip_def strip_extension_def Let_def)
  have ql: "(0::nat) < 4000" "(0::nat) < 2000" "(1200::nat) < 4000 \<or> (1200::nat) < 2000"
    by simp_all
  have qs: "(0::nat) < 5000" "(0::nat) < 4" "(1200::nat) < 5000 \<or> (1200::nat) < 4"
    by simp_all
  note L = compressImage_dimensions[OF ql p, of sample_toBlob 2 "85 / 100"]
  note S = compressImage_dimensions[OF qs t, of sample_toBlob 2 "85 / 100"]
  have cl: "canvas_size 4000 2000 = (1200, 600)" using L by simp
  have cs: "canvas_size 5000 4 = (1200, 0)" using S by simp
  have a: "max (fst (canvas_size 4000 2000)) (snd (canvas_size 4000 2000)) = 1200"
    using L by simp
  have b: "compressImage sample_toBlob large_photo 2 (85 / 100) =
             Some \<lparr>name = ''IMG_0042_compressed.jpg'', type' = ''image/jpeg'', size' = 270000,
                   image' = Some (1200, 600)\<rparr>"
    using L by (simp add: cl n sample_toBlob_def)
  have c: "aspect_deviation (4000, 2000) (canvas_size 4000 2000) < 1 / 100"
    by (rule L[THEN conjunct2, THEN conjunct2, THEN conjunct2, THEN conjunct2, rule_format])
       simp
  have d: "compressImage sample_toBlob thin_strip 2 (85 / 100) =
             Some \<lparr>name = ''rule_compressed.jpg'', type' = ''image/jpeg'', size' = 4,
                   image' = None\<rparr>"
    using S by (simp add: m)
  show ?thesis using cl a b c cs d by simp
qed

section \<open>Properties of the chat manager\<close>

lemma ChatAPI_getHistory_sends:
  "\<exists>req. ChatAPI_getHistory parse stringify limit e = Inr (req, e)"
  by (simp add: ChatAPI_getHistory_def get_def makeRequest_def fetch_patched_def Let_def)

lemma returning_send_succeeds:
  "\<not> isl (ChatAPI_sendMessage JSON_parse JSON_stringify ''hi'' None returning_env)"
  by (simp add: ChatAPI_sendMessage_def postFormData_def makeRequest_def fetch_patched_def
        inject_form_def has_def append'_def getUserId_def telegram_identity_def
        getTelegramUserId_def getUserHeaders_def json_body_def API_BASE_URL_def env_defs)

lemma returning_session_id:
  "currentUserId (updateUserId returning_env fresh_chat) = Some ''web_session_1700000000000''"
  by (simp add: updateUserId_def fresh_chat_def env_defs digits10.simps)

text \<open>
  C10. When the reply to the history request, or to a message that was sent, reports
  success and carries a \<^verbatim>\<open>user_id\<close> (a non-empty token: the code tests it for
  truthiness), the current identity of the chat manager afterwards is the one of the reply,
  whatever the identity was before and whatever \<^verbatim>\<open>updateUserId\<close> had resolved locally.
\<close>

theorem server_identity_overwrites:
  assumes "success data" "user_id data = Some u" "u \<noteq> []" "\<forall>req. server req = Inr data"
  shows "currentUserId (fst (loadChatHistory parse stringify server e st)) = Some u
       \<and> (\<not> isProcessing st \<and> (message \<noteq> [] \<or> currentImage st \<noteq> None)
            \<and> \<not> isl (ChatAPI_sendMessage parse stringify message
                        (map_option file' (currentImage st)) e)
          \<longrightarrow> currentUserId (fst (sendMessage parse stringify server message e st)) = Some u)"
proof -
  obtain req where req: "ChatAPI_getHistory parse stringify 10 e = Inr (req, e)"
    using ChatAPI_getHistory_sends by blast
  have srv: "\<And>r. server r = Inr data" using assms(4) by blast
  have h: "\<And>s. currentUserId (history_loaded data s) = Some u"
    using assms(1-3) by (simp add: history_loaded_def Let_def split: option.splits list.splits)
  have m: "\<And>s. currentUserId (message_answered message data s) = Some u"
    using assms(1-3) by (simp add: message_answered_def Let_def split: option.splits)
  have img: "currentImage (updateUserId e st) = currentImage st"
    by (simp add: updateUserId_def Let_def split: option.splits)
  have load: "currentUserId (fst (loadChatHistory parse stringify server e st)) = Some u"
    by (simp add: loadChatHistory_def Let_def req srv h)
  have send: "currentUserId (fst (sendMessage parse stringify server message e st)) = Some u"
    if "\<not> isProcessing st" "message \<noteq> [] \<or> currentImage st \<noteq> None"
       "\<not> isl (ChatAPI_sendMessage parse stringify message (map_option file' (currentImage st)) e)"
  proof -
    from that(3) obtain r e' where
      r: "ChatAPI_sendMessage parse stringify message (map_option file' (currentImage st)) e
          = Inr (r, e')"
      by (cases "ChatAPI_sendMessage parse stringify message (map_option file' (currentImage st)) e")
         auto
    show ?thesis using that(1,2)
      by (auto simp: sendMessage_def Let_def img r srv m)
  qed
  show ?thesis using load send by blast
qed

theorem server_identity_overwrites_witness:
  "success echo_reply \<and> user_id echo_reply = Some ''tg_777''
   \<and> currentUserId (updateUserId returning_env fresh_chat) = Some ''web_session_1700000000000''
   \<and> currentUserId (fst (loadChatHistory JSON_parse JSON_stringify (\<lambda>req. Inr echo_reply)
                            returning_env fresh_chat)) = Some ''tg_777''
   \<and> \<not> isProcessing fresh_chat
   \<and> currentUserId (fst (sendMessage JSON_parse JSON_stringify (\<lambda>req. Inr echo_reply) ''hi''
                            returning_env fresh_chat)) = Some ''tg_777''"
  using server_identity_overwrites[where data = echo_reply and u = "''tg_777''"
          and server = "\<lambda>req. Inr echo_reply" and parse = JSON_parse
          and stringify = JSON_stringify and e = returning_env and st = fresh_chat
          and message = "''hi''"]
        returning_send_succeeds returning_session_id
  by (simp add: echo_reply_def fresh_chat_def)

section \<open>At-most-once injection\<close>

lemma map_of_put_field: "map_of (put_field fs k v) k = Some v"
  by (induction fs) auto

lemma field_count_put_field:
  "map_of fs k = None \<Longrightarrow> field_count k (put_field fs k v) = 1"
  by (induction fs) (auto simp: field_count_def split: if_splits)

lemma inject_form_present: "has fd ''user_id'' \<Longrightarrow> inject_form label fd e = Inr (fd, e)"
  by (simp add: inject_form_def)

lemma inject_form_absent:
  "\<not> has fd ''user_id'' \<Longrightarrow> getUserId e = Inr (x, e1)
   \<Longrightarrow> inject_form label fd e = Inr (fd @ [(''user_id'', FString x)], console_log label x e1)"
  by (simp add: inject_form_def getUserId_again append'_def)

lemma has_appended: "has (fd @ [(''user_id'', v)]) ''user_id''"
  by (simp add: has_def)

lemma field_count_appended:
  "\<not> has fd ''user_id'' \<Longrightarrow> field_count ''user_id'' (fd @ [(''user_id'', v)]) = 1"
  by (induction fd) (auto simp: field_count_def has_def)

lemma returning_resolves:
  "getUserId returning_env = Inr (''web_1690000000000_k3j9x0q1zab'', returning_env)"
  by (simp add: getUserId_def telegram_identity_def env_defs)

lemma parse_empty_object: "JSON_parse ''{}'' = Inr (JObj [])"
  by (simp add: JSON_parse_def)

lemma returning_roundtrip:
  "JSON_parse (JSON_stringify (JObj (put_field [] ''user_id'' (JStr ''web_1690000000000_k3j9x0q1zab''))))
   = Inr (JObj (put_field [] ''user_id'' (JStr ''web_1690000000000_k3j9x0q1zab'')))"
  by (simp add: JSON_parse_def quote_def)

text \<open>
  C5. For a POST to a chat URL: a multipart body that has a \<^verbatim>\<open>user_id\<close> entry leaves as it
  came; a multipart body without one leaves with exactly one, and a second run of the
  injector on the result changes nothing. A JSON body that parses to an object without
  \<^verbatim>\<open>user_id\<close>, with \<open>x\<close> the resolved identity, leaves as the serialisation of the object
  with \<^verbatim>\<open>user_id\<close> set to \<open>x\<close>: it parses back to an object with exactly one \<^verbatim>\<open>user_id\<close>
  property, equal to \<open>x\<close>, and a second run of the injector on the result changes nothing.
  \<^verbatim>\<open>JSON.parse\<close> and \<^verbatim>\<open>JSON.stringify\<close> are the platform's; the theorem uses of them that
  the serialised object parses back to itself.
\<close>

theorem injection_at_most_once:
  assumes "includes' url ''/api/chat''" "method' opts = Some ''POST''"
  shows "(body opts = FormData fd \<and> has fd ''user_id''
            \<longrightarrow> fetch_patched parse stringify url opts e = Inr ((url, opts), e))
       \<and> (body opts = FormData fd \<and> \<not> has fd ''user_id'' \<and> getUserId e = Inr (x, e')
            \<longrightarrow> (let req = (url, opts\<lparr>body := FormData (fd @ [(''user_id'', FString x)])\<rparr>);
                      e2 = console_log ''Added user_id to FormData:'' x e'
                  in fetch_patched parse stringify url opts e = Inr (req, e2)
                     \<and> field_count ''user_id'' (fd @ [(''user_id'', FString x)]) = 1
                     \<and> fetch_patched parse stringify url (snd req) e2 = Inr (req, e2)))
       \<and> (body opts = Text s \<and> json_content_type opts \<and> parse s = Inr (JObj fs)
            \<and> map_of fs ''user_id'' = None \<and> getUserId e = Inr (x, e')
            \<and> parse (stringify (JObj (put_field fs ''user_id'' (JStr x))))
                = Inr (JObj (put_field fs ''user_id'' (JStr x)))
            \<longrightarrow> (let data' = put_field fs ''user_id'' (JStr x);
                      req = (url, opts\<lparr>body := Text (stringify (JObj data'))\<rparr>);
                      e2 = console_log ''Added user_id to JSON:'' x e'
                  in fetch_patched parse stringify url opts e = Inr (req, e2)
                     \<and> parse (body_text (body (snd req))) = Inr (JObj data')
                     \<and> map_of data' ''user_id'' = Some (JStr x)
                     \<and> field_count ''user_id'' data' = 1
                     \<and> fetch_patched parse stringify url (snd req) e2 = Inr (req, e2)))"
proof (intro conjI impI)
  assume "body opts = FormData fd \<and> has fd ''user_id''"
  then show "fetch_patched parse stringify url opts e = Inr ((url, opts), e)"
    using assms by (simp add: fetch_patched_def inject_form_present)
next
  assume a: "body opts = FormData fd \<and> \<not> has fd ''user_id'' \<and> getUserId e = Inr (x, e')"
  let ?opts' = "opts\<lparr>body := FormData (fd @ [(''user_id'', FString x)])\<rparr>"
  let ?e2 = "console_log ''Added user_id to FormData:'' x e'"
  have first: "fetch_patched parse stringify url opts e = Inr ((url, ?opts'), ?e2)"
    using assms a by (simp add: fetch_patched_def inject_form_absent)
  have second: "fetch_patched parse stringify url ?opts' ?e2 = Inr ((url, ?opts'), ?e2)"
    using assms by (simp add: fetch_patched_def inject_form_present has_appended)
  have cnt: "field_count ''user_id'' (fd @ [(''user_id'', FString x)]) = 1"
    using a by (simp add: field_count_appended)
  show "let req = (url, ?opts'); e2 = ?e2
        in fetch_patched parse stringify url opts e = Inr (req, e2)
           \<and> field_count ''user_id'' (fd @ [(''user_id'', FString x)]) = 1
           \<and> fetch_patched parse stringify url (snd req) e2 = Inr (req, e2)"
    using first second cnt by (simp add: Let_def)
next
  assume a: "body opts = Text s \<and> json_content_type opts \<and> parse s = Inr (JObj fs)
            \<and> map_of fs ''user_id'' = None \<and> getUserId e = Inr (x, e')
            \<and> parse (stringify (JObj (put_field fs ''user_id'' (JStr x))))
                = Inr (JObj (put_field fs ''user_id'' (JStr x)))"
  let ?d = "put_field fs ''user_id'' (JStr x)"
  let ?opts' = "opts\<lparr>body := Text (stringify (JObj ?d))\<rparr>"
  let ?e2 = "console_log ''Added user_id to JSON:'' x e'"
  have x: "x \<noteq> []" using a getUserId_nonempty by blast
  have again: "getUserId e' = Inr (x, e')" using a getUserId_again by blast
  have ij1: "inject_json parse stringify opts e = (?opts', ?e2)"
    using a again by (simp add: inject_json_def body_text_def)
  have first: "fetch_patched parse stringify url opts e = Inr ((url, ?opts'), ?e2)"
    using assms a ij1 by (simp add: fetch_patched_def)
  have jct: "json_content_type ?opts'" using a by (simp add: json_content_type_def)
  have ij2: "inject_json parse stringify ?opts' ?e2 = (?opts', ?e2)"
    using a x by (simp add: inject_json_def body_text_def map_of_put_field)
  have second: "fetch_patched parse stringify url ?opts' ?e2 = Inr ((url, ?opts'), ?e2)"
    using assms jct ij2 by (simp add: fetch_patched_def)
  have cnt: "field_count ''user_id'' ?d = 1" using a by (simp add: field_count_put_field)
  show "let data' = ?d; req = (url, opts\<lparr>body := Text (stringify (JObj data'))\<rparr>); e2 = ?e2
        in fetch_patched parse stringify url opts e = Inr (req, e2)
           \<and> parse (body_text (body (snd req))) = Inr (JObj data')
           \<and> map_of data' ''user_id'' = Some (JStr x)
           \<and> field_count ''user_id'' data' = 1
           \<and> fetch_patched parse stringify url (snd req) e2 = Inr (req, e2)"
    using first second cnt a by (simp add: Let_def body_text_def map_of_put_field)
qed

theorem injection_at_most_once_witness:
  "includes' ''/api/chat/clear'' ''/api/chat''
   \<and> has [(''message'', FString ''hi''), (''user_id'', FString ''custom_42'')] ''user_id''
   \<and> fetch_patched JSON_parse JSON_stringify ''/api/chat'' tagged_form_options returning_env
       = Inr ((''/api/chat'', tagged_form_options), returning_env)
   \<and> fetch_patched JSON_parse JSON_stringify ''/api/chat'' plain_form_options returning_env
       = Inr ((''/api/chat'',
               plain_form_options\<lparr>body := FormData [(''message'', FString ''hi''),
                 (''user_id'', FString ''web_1690000000000_k3j9x0q1zab'')]\<rparr>),
              console_log ''Added user_id to FormData:'' ''web_1690000000000_k3j9x0q1zab''
                returning_env)
   \<and> JSON_parse ''{}'' = Inr (JObj [])
   \<and> fetch_patched JSON_parse JSON_stringify ''/api/chat/clear'' clear_options returning_env
       = Inr ((''/api/chat/clear'',
               clear_options\<lparr>body := Text (JSON_stringify
                 (JObj [(''user_id'', JStr ''web_1690000000000_k3j9x0q1zab'')]))\<rparr>),
              console_log ''Added user_id to JSON:'' ''web_1690000000000_k3j9x0q1zab''
                returning_env)
   \<and> fetch_patched JSON_parse JSON_stringify ''/api/chat/clear''
         (clear_options\<lparr>body := Text (JSON_stringify
            (JObj [(''user_id'', JStr ''web_1690000000000_k3j9x0q1zab'')]))\<rparr>)
         (console_log ''Added user_id to JSON:'' ''web_1690000000000_k3j9x0q1zab'' returning_env)
       = Inr ((''/api/chat/clear'',
               clear_options\<lparr>body := Text (JSON_stringify
                 (JObj [(''user_id'', JStr ''web_1690000000000_k3j9x0q1zab'')]))\<rparr>),
              console_log ''Added user_id to JSON:'' ''web_1690000000000_k3j9x0q1zab''
                returning_env)"
proof -
  have u1: "includes' ''/api/chat'' ''/api/chat''" by simp
  have u2: "includes' ''/api/chat/clear'' ''/api/chat''" by simp
  have m1: "method' tagged_form_options = Some ''POST''" by (simp add: tagged_form_options_def)
  have m2: "method' plain_form_options = Some ''POST''" by (simp add: plain_form_options_def)
  have m3: "method' clear_options = Some ''POST''" by (simp add: clear_options_def)
  have h1: "has [(''message'', FString ''hi''), (''user_id'', FString ''custom_42'')] ''user_id''"
    by (simp add: has_def)
  have h2: "\<not> has [(''message'', FString ''hi'')] ''user_id''"
    by (simp add: has_def)
  have j: "json_content_type clear_options"
    by (simp add: clear_options_def json_content_type_def)
  note t1 = injection_at_most_once[where url = "''/api/chat''" and opts = tagged_form_options
      and parse = JSON_parse and stringify = JSON_stringify and e = returning_env
      and fd = "[(''message'', FString ''hi''), (''user_id'', FString ''custom_42'')]"]
  note t2 = injection_at_most_once[where url = "''/api/chat''" and opts = plain_form_options
      and parse = JSON_parse and stringify = JSON_stringify and e = returning_env and e' = returning_env and x = "''web_1690000000000_k3j9x0q1zab''"
      and fd = "[(''message'', FString ''hi'')]"]
  note t3 = injection_at_most_once[where url = "''/api/chat/clear''" and opts = clear_options
      and parse = JSON_parse and stringify = JSON_stringify and e = returning_env and e' = returning_env and x = "''web_1690000000000_k3j9x0q1zab''"
      and s = "''{}''" and fs = "[]"]
  have a: "fetch_patched JSON_parse JSON_stringify ''/api/chat'' tagged_form_options returning_env
       = Inr ((''/api/chat'', tagged_form_options), returning_env)"
    using t1 u1 m1 h1 by (simp add: tagged_form_options_def)
  have b: "fetch_patched JSON_parse JSON_stringify ''/api/chat'' plain_form_options returning_env
       = Inr ((''/api/chat'',
               plain_form_options\<lparr>body := FormData [(''message'', FString ''hi''),
                 (''user_id'', FString ''web_1690000000000_k3j9x0q1zab'')]\<rparr>),
              console_log ''Added user_id to FormData:'' ''web_1690000000000_k3j9x0q1zab''
                returning_env)"
    using t2 u1 m2 h2 returning_resolves by (simp add: plain_form_options_def Let_def)
  have c: "fetch_patched JSON_parse JSON_stringify ''/api/chat/clear'' clear_options returning_env
       = Inr ((''/api/chat/clear'',
               clear_options\<lparr>body := Text (JSON_stringify
                 (JObj [(''user_id'', JStr ''web_1690000000000_k3j9x0q1zab'')]))\<rparr>),
              console_log ''Added user_id to JSON:'' ''web_1690000000000_k3j9x0q1zab''
                returning_env)
     \<and> fetch_patched JSON_parse JSON_stringify ''/api/chat/clear''
         (clear_options\<lparr>body := Text (JSON_stringify
            (JObj [(''user_id'', JStr ''web_1690000000000_k3j9x0q1zab'')]))\<rparr>)
         (console_log ''Added user_id to JSON:'' ''web_1690000000000_k3j9x0q1zab'' returning_env)
       = Inr ((''/api/chat/clear'',
               clear_options\<lparr>body := Text (JSON_stringify
                 (JObj [(''user_id'', JStr ''web_1690000000000_k3j9x0q1zab'')]))\<rparr>),
              console_log ''Added user_id to JSON:'' ''web_1690000000000_k3j9x0q1zab''
                returning_env)"
    using t3 u2 m3 j returning_resolves parse_empty_object returning_roundtrip
    by (simp add: clear_options_def Let_def del: JSON_stringify.simps)
  show ?thesis using u2 h1 a b c parse_empty_object by blast
qed

section \<open>Precedence of the Telegram identity\<close>

lemma telegram_identity_host:
  "id' u \<noteq> 0 \<Longrightarrow> telegram_identity (host_provides u e) = Some (id' u)"
  by (simp add: telegram_identity_def host_provides_def split: option.splits)

lemma telegram_identity_tick [simp]:
  "telegram_identity (e\<lparr>Date_now := t, Math_random_36 := r\<rparr>) = telegram_identity e"
  by (simp add: telegram_identity_def)

lemma session_all_telegram:
  assumes "telegram_identity e \<noteq> None" "\<forall>u. HostIdentity u \<in> set evs \<longrightarrow> id' u \<noteq> 0"
      and "HostWithdraws \<notin> set evs"
  shows "\<forall>p \<in> set (session evs e). fst p \<and> (\<exists>n. snd p = Inr (''tg_'' @ toString n))"
  using assms
proof (induction evs arbitrary: e)
  case Nil
  then show ?case by simp
next
  case (Cons ev evs)
  show ?case
  proof (cases ev)
    case Resolve
    from Cons.prems(1) obtain n where n: "telegram_identity e = Some n" by auto
    have g: "getUserId e = Inr (''tg_'' @ toString n, e)" by (rule getUserId_telegram[OF n])
    have "\<forall>p \<in> set (session evs e). fst p \<and> (\<exists>n. snd p = Inr (''tg_'' @ toString n))"
      using Cons.IH[of e] Cons.prems by simp
    then show ?thesis using Resolve n g by auto
  next
    case (HostIdentity u)
    then have "id' u \<noteq> 0" using Cons.prems(2) by simp
    then have "telegram_identity (host_provides u e) \<noteq> None"
      by (simp add: telegram_identity_host)
    then show ?thesis
      using HostIdentity Cons.IH[of "host_provides u e"] Cons.prems(2,3) by simp
  next
    case HostWithdraws
    then show ?thesis using Cons.prems(3) by simp
  next
    case (Tick t r)
    then show ?thesis
      using Cons.IH[of "e\<lparr>Date_now := t, Math_random_36 := r\<rparr>"] Cons.prems by simp
  next
    case StorageCleared
    then show ?thesis
      using Cons.IH[of "e\<lparr>localStorage := Map.empty\<rparr>"] Cons.prems by simp
  qed
qed

lemma session_after_telegram:
  assumes "\<forall>u. HostIdentity u \<in> set evs \<longrightarrow> id' u \<noteq> 0" "HostWithdraws \<notin> set evs"
      and "i < j" "j < length (session evs e)" "fst (session evs e ! i)"
  shows "\<exists>n. snd (session evs e ! j) = Inr (''tg_'' @ toString n)"
  using assms
proof (induction evs arbitrary: e i j)
  case Nil
  then show ?case by simp
next
  case (Cons ev evs)
  have stays: "HostWithdraws \<notin> set evs" using Cons.prems(2) by simp
  show ?case
  proof (cases ev)
    case Resolve
    let ?e' = "case getUserId e of Inr (x, e') \<Rightarrow> e' | Inl err \<Rightarrow> e"
    have s: "session (ev # evs) e
             = (telegram_identity e \<noteq> None, map_sum (\<lambda>err. err) fst (getUserId e)) # session evs ?e'"
      using Resolve by simp
    obtain j' where j': "j = Suc j'" using Cons.prems(3) by (cases j) auto
    have hosts: "\<forall>u. HostIdentity u \<in> set evs \<longrightarrow> id' u \<noteq> 0" using Cons.prems(1) by simp
    show ?thesis
    proof (cases i)
      case 0
      then have "telegram_identity e \<noteq> None" using Cons.prems(5) s by simp
      then obtain n where n: "telegram_identity e = Some n" by auto
      have "?e' = e" by (simp add: getUserId_telegram[OF n])
      then have all: "\<forall>p \<in> set (session evs ?e'). fst p \<and> (\<exists>n. snd p = Inr (''tg_'' @ toString n))"
        using session_all_telegram[of e evs] n hosts stays by simp
      have "j' < length (session evs ?e')" using Cons.prems(4) s j' by simp
      then have "session evs ?e' ! j' \<in> set (session evs ?e')" by simp
      then show ?thesis using all s j' by auto
    next
      case (Suc i')
      have "\<exists>n. snd (session evs ?e' ! j') = Inr (''tg_'' @ toString n)"
        using Cons.IH[of i' j' ?e'] hosts stays Cons.prems(3-5) s j' Suc by simp
      then show ?thesis using s j' by simp
    qed
  next
    case (HostIdentity u)
    then show ?thesis
      using Cons.IH[of i j "host_provides u e"] Cons.prems by simp
  next
    case HostWithdraws
    then show ?thesis using Cons.prems(2) by simp
  next
    case (Tick t r)
    then show ?thesis
      using Cons.IH[of i j "e\<lparr>Date_now := t, Math_random_36 := r\<rparr>"] Cons.prems by simp
  next
    case StorageCleared
    then show ?thesis
      using Cons.IH[of i j "e\<lparr>localStorage := Map.empty\<rparr>"] Cons.prems by simp
  qed
qed

lemma updateUserId_adapter_user:
  assumes "adapter_user e = Some u" "id' u \<noteq> 0"
  shows "currentUserId (updateUserId e st) = Some (''tg_'' @ toString (id' u))"
  using assms
  by (auto simp: updateUserId_def adapter_user_def getTelegramUser_def Let_def
           split: option.splits if_splits)

lemma in_telegram_host [simp]: "in_telegram (host_provides u e) = in_telegram e"
  by (simp add: in_telegram_def host_provides_def)

lemma Date_now_host [simp]: "Date_now (host_provides u e) = Date_now e"
  by (simp add: host_provides_def)

lemma updateUserId_outside:
  assumes "\<not> in_telegram e"
  shows "currentUserId (updateUserId e st) =
           (if currentUserId st = None \<or> currentUserId st = Some []
            then Some (''web_session_'' @ digits10 (Date_now e)) else currentUserId st)"
  using assms by (simp add: updateUserId_def in_telegram_def)

lemma updateUserId_late_host:
  assumes "\<not> in_telegram e"
  shows "currentUserId (updateUserId (host_provides u e) st) =
           (if currentUserId st = None \<or> currentUserId st = Some []
            then Some (''web_session_'' @ digits10 (Date_now e)) else currentUserId st)"
proof -
  have "\<not> in_telegram (host_provides u e)" using assms by simp
  then show ?thesis
    using updateUserId_outside[of "host_provides u e" st] by simp
qed

lemma updateUserId_keeps_telegram:
  assumes "currentUserId st = Some (''tg_'' @ s)"
  shows "\<exists>s'. currentUserId (updateUserId e st) = Some (''tg_'' @ s')"
  using assms by (auto simp: updateUserId_def Let_def split: option.splits)

lemma late_host_identity: "telegram_identity late_host_env = Some 555"
  by (simp add: late_host_env_def telegram_identity_def host_provides_def env_defs)

lemma late_host_outside: "\<not> in_telegram browser_env"
  by (simp add: in_telegram_def env_defs)

lemma toString_555: "toString 555 = ''555''"
  by (simp add: toString_def digits10.simps)

lemma digits10_now: "digits10 1700000000000 = ''1700000000000''"
  by (simp add: digits10.simps)

text \<open>
  C4, as stated for every resolution, fails for the chat manager. In a page whose
  integration script loaded before the Telegram host's user 555 became available,
  \<^verbatim>\<open>getUserId\<close> observes the Telegram identity \<^verbatim>\<open>tg_555\<close>, and \<^verbatim>\<open>updateUserId\<close>, called in
  the same state, resolves to a web-generated identity: it tests the flag that the
  integration script computed when it loaded.
\<close>

theorem updateUserId_late_host_counterexample:
  "telegram_identity late_host_env = Some 555
   \<and> getUserId late_host_env = Inr (''tg_555'', late_host_env)
   \<and> currentUserId (updateUserId late_host_env fresh_chat) = Some ''web_session_1700000000000''
   \<and> web_generated ''web_session_1700000000000''"
proof -
  have g: "getUserId late_host_env = Inr (''tg_555'', late_host_env)"
    using getUserId_telegram[OF late_host_identity] by (simp add: toString_555)
  have "Date_now browser_env = 1700000000000" by (simp add: env_defs)
  then have u: "currentUserId (updateUserId late_host_env fresh_chat)
                = Some ''web_session_1700000000000''"
    using updateUserId_late_host[OF late_host_outside, of "\<lparr>id' = 555\<rparr>" fresh_chat]
    by (simp add: late_host_env_def fresh_chat_def digits10_now)
  show ?thesis using late_host_identity g u by (simp add: web_generated_def)
qed

text \<open>
  C4, amended. \<^verbatim>\<open>getUserId\<close> reads the Telegram source at every call and caches nothing:
  whenever the host's user is available the call returns \<^verbatim>\<open>tg_<id>\<close>, whatever the storage
  holds. So in every session (any sequence of resolutions, arrivals of a host user with a
  non-zero id, clock and random changes and removals of the stored identity) in which the
  host does not take its user away again, once \<^verbatim>\<open>getUserId\<close> has been called with the
  Telegram identity available, every later call of \<^verbatim>\<open>getUserId\<close> returns a Telegram
  identity, never a web-generated one. \<^verbatim>\<open>updateUserId\<close> of the chat manager reads the host's user at every
  call too, but only behind the flag \<^verbatim>\<open>isInTelegram\<close> that the integration script fixed
  when it loaded. Where the flag is set and the host's user is available, it sets the
  current identity to \<^verbatim>\<open>tg_<id>\<close>. Where the flag is not set, it keeps a non-empty current
  identity and replaces an empty one by \<^verbatim>\<open>web_session_<now>\<close>, also after the host's user
  has become available. It never replaces a current identity \<^verbatim>\<open>tg_...\<close> by a web one.
\<close>

theorem telegram_precedence:
  assumes "\<forall>u. HostIdentity u \<in> set evs \<longrightarrow> id' u \<noteq> 0" "HostWithdraws \<notin> set evs"
      and "i < j" "j < length (session evs e)" "fst (session evs e ! i)"
  shows "(\<exists>n. snd (session evs e ! j) = Inr (''tg_'' @ toString n))
       \<and> (\<forall>x. snd (session evs e ! j) = Inr x \<longrightarrow> \<not> web_generated x)
       \<and> (\<forall>env n. telegram_identity env = Some n
                  \<longrightarrow> getUserId env = Inr (''tg_'' @ toString n, env))
       \<and> (\<forall>env st u. adapter_user env = Some u \<and> id' u \<noteq> 0
                  \<longrightarrow> currentUserId (updateUserId env st) = Some (''tg_'' @ toString (id' u)))
       \<and> (\<forall>env st. \<not> in_telegram env
                  \<longrightarrow> currentUserId (updateUserId env st) =
                        (if currentUserId st = None \<or> currentUserId st = Some []
                         then Some (''web_session_'' @ digits10 (Date_now env))
                         else currentUserId st))
       \<and> (\<forall>env st u. \<not> in_telegram env
                  \<longrightarrow> currentUserId (updateUserId (host_provides u env) st) =
                        currentUserId (updateUserId env st))
       \<and> (\<forall>env st s. currentUserId st = Some (''tg_'' @ s)
                  \<longrightarrow> (\<exists>s'. currentUserId (updateUserId env st) = Some (''tg_'' @ s')))"
proof -
  obtain n where n: "snd (session evs e ! j) = Inr (''tg_'' @ toString n)"
    using session_after_telegram[OF assms] by blast
  then have w: "\<forall>x. snd (session evs e ! j) = Inr x \<longrightarrow> \<not> web_generated x"
    by (simp add: web_generated_def)
  have late: "\<forall>env st u. \<not> in_telegram env
                  \<longrightarrow> currentUserId (updateUserId (host_provides u env) st) =
                        currentUserId (updateUserId env st)"
    by (simp add: updateUserId_late_host updateUserId_outside)
  show ?thesis
    using n w late getUserId_telegram updateUserId_adapter_user updateUserId_outside
      updateUserId_keeps_telegram
    by blast
qed

lemma late_host_session:
  "session late_host_visit browser_env =
     [(False, Inr ''web_1700000000000_4fzyo82mvyr''), (True, Inr ''tg_555''), (True, Inr ''tg_555'')]"
  by (simp add: late_host_visit_def getUserId_def telegram_identity_def setItem_def
        console_log_def host_provides_def substring_def toString_def digits10.simps Let_def env_defs)

lemma telegram_adapter_user: "adapter_user telegram_env = Some \<lparr>id' = 555\<rparr>"
  by (simp add: adapter_user_def getTelegramUser_def env_defs)

theorem telegram_precedence_witness:
  "session late_host_visit browser_env =
       [(False, Inr ''web_1700000000000_4fzyo82mvyr''), (True, Inr ''tg_555''), (True, Inr ''tg_555'')]
   \<and> HostWithdraws \<notin> set late_host_visit
   \<and> fst (session late_host_visit browser_env ! 1)
   \<and> snd (session late_host_visit browser_env ! 2) = Inr ''tg_555''
   \<and> \<not> web_generated ''tg_555''
   \<and> getUserId telegram_env = Inr (''tg_555'', telegram_env)
   \<and> currentUserId (updateUserId telegram_env fresh_chat) = Some ''tg_555''
   \<and> \<not> in_telegram returning_env
   \<and> currentUserId (updateUserId returning_env fresh_chat) = Some ''web_session_1700000000000''
   \<and> currentUserId (updateUserId (host_provides \<lparr>id' = 777\<rparr> returning_env) fresh_chat)
       = Some ''web_session_1700000000000''
   \<and> currentUserId (updateUserId returning_env (fresh_chat\<lparr>currentUserId := Some ''tg_555''\<rparr>))
       = Some ''tg_555''"
proof -
  have h: "\<forall>u. HostIdentity u \<in> set late_host_visit \<longrightarrow> id' u \<noteq> 0"
    by (simp add: late_host_visit_def)
  have nw: "HostWithdraws \<notin> set late_host_visit"
    by (simp add: late_host_visit_def)
  have p1: "(1::nat) < 2" by simp
  have p2: "2 < length (session late_host_visit browser_env)" by (simp add: late_host_session)
  have p3: "fst (session late_host_visit browser_env ! 1)" by (simp add: late_host_session)
  note T = telegram_precedence[OF h nw p1 p2 p3]
  note T3 = T[THEN conjunct2, THEN conjunct2, THEN conjunct1, rule_format]
  note T4 = T[THEN conjunct2, THEN conjunct2, THEN conjunct2, THEN conjunct1, rule_format]
  note T5 = T[THEN conjunct2, THEN conjunct2, THEN conjunct2, THEN conjunct2, THEN conjunct1,
              rule_format]
  note T6 = T[THEN conjunct2, THEN conjunct2, THEN conjunct2, THEN conjunct2, THEN conjunct2,
              THEN conjunct1, rule_format]
  note T7 = T[THEN conjunct2, THEN conjunct2, THEN conjunct2, THEN conjunct2, THEN conjunct2,
              THEN conjunct2, rule_format]
  have t: "telegram_identity telegram_env = Some 555"
    by (simp add: telegram_identity_def env_defs)
  have o: "\<not> in_telegram returning_env"
    by (simp add: in_telegram_def env_defs)
  have now: "Date_now returning_env = 1700000000000" by (simp add: env_defs)
  have fc: "currentUserId fresh_chat = None" by (simp add: fresh_chat_def)
  have a: "snd (session late_host_visit browser_env ! 2) = Inr ''tg_555''"
    using T[THEN conjunct1] by (simp add: late_host_session)
  have b: "\<not> web_generated ''tg_555''"
    using T[THEN conjunct2, THEN conjunct1] a by simp
  have c: "getUserId telegram_env = Inr (''tg_555'', telegram_env)"
    using T3[OF t] by (simp add: toString_555)
  have d: "currentUserId (updateUserId telegram_env fresh_chat) = Some ''tg_555''"
    using T4[of telegram_env "\<lparr>id' = 555\<rparr>" fresh_chat] telegram_adapter_user
    by (simp add: toString_555)
  have f: "currentUserId (updateUserId returning_env fresh_chat)
           = Some ''web_session_1700000000000''"
    using T5[OF o, of fresh_chat] by (simp add: fc now digits10_now)
  have g: "currentUserId (updateUserId (host_provides \<lparr>id' = 777\<rparr> returning_env) fresh_chat)
           = Some ''web_session_1700000000000''"
    using T6[OF o, of "\<lparr>id' = 777\<rparr>" fresh_chat] f by simp
  have k: "currentUserId (updateUserId returning_env (fresh_chat\<lparr>currentUserId := Some ''tg_555''\<rparr>))
           = Some ''tg_555''"
    using T5[OF o, of "fresh_chat\<lparr>currentUserId := Some ''tg_555''\<rparr>"] by simp
  show ?thesis using late_host_session nw p3 a b c d o f g k by simp
qed

section \<open>Identity channels of the chat requests\<close>

lemma digits10_chars: "set (digits10 n) \<subseteq> set ''0123456789''"
proof (induction n rule: digits10.induct)
  case (1 n)
  have d: "\<And>k. k < 10 \<Longrightarrow> ''0123456789'' ! k \<in> set ''0123456789''"
    by (rule nth_mem) simp
  show ?case
  proof (cases "n < 10")
    case True
    then show ?thesis using d[of n] by (subst digits10.simps) simp
  next
    case False
    have m: "n mod 10 < 10" by simp
    show ?thesis
      using False 1 d[OF m] by (subst digits10.simps) simp
  qed
qed

lemma digit_chars_sub: "set ''0123456789'' \<subseteq> set ''-0123456789''"
  by (simp only: list.set) (rule subset_insertI)

lemma toString_chars: "set (toString i) \<subseteq> set ''-0123456789''"
proof (cases "i < 0")
  case True
  have "set (digits10 (nat (- i))) \<subseteq> set ''-0123456789''"
    using digits10_chars digit_chars_sub by (rule subset_trans)
  moreover have "CHR ''-'' \<in> set ''-0123456789''" by simp
  moreover have "toString i = CHR ''-'' # digits10 (nat (- i))" using True by (simp add: toString_def)
  ultimately show ?thesis by simp
next
  case False
  have "set (digits10 (nat i)) \<subseteq> set ''-0123456789''"
    using digits10_chars digit_chars_sub by (rule subset_trans)
  moreover have "toString i = digits10 (nat i)" using False by (simp add: toString_def)
  ultimately show ?thesis by simp
qed

lemma urlencode_safe: "\<forall>c \<in> set s. url_safe c \<Longrightarrow> urlencode s = s"
  by (induction s) auto

lemma url_safe_digits: "c \<in> set ''-0123456789'' \<Longrightarrow> url_safe c"
  by (auto simp: url_safe_def)

lemma urlencode_toString: "urlencode (toString i) = toString i"
proof (rule urlencode_safe, rule ballI)
  fix c assume "c \<in> set (toString i)"
  then have "c \<in> set ''-0123456789''" using toString_chars[of i] by blast
  then show "url_safe c" by (rule url_safe_digits)
qed

lemma urlencode_digits10: "urlencode (digits10 n) = digits10 n"
proof (rule urlencode_safe, rule ballI)
  fix c assume "c \<in> set (digits10 n)"
  then have "c \<in> set ''0123456789''" using digits10_chars[of n] by blast
  then have "c \<in> set ''-0123456789''" by auto
  then show "url_safe c" by (rule url_safe_digits)
qed

lemma split_on_none: "c \<notin> set a \<Longrightarrow> split_on c a = [a]"
  by (induction a) auto

lemma split_on_append: "c \<notin> set a \<Longrightarrow> split_on c (a @ c # b) = a # split_on c b"
  by (induction a) auto

lemma takeWhile_append_stop: "\<forall>x \<in> set a. P x \<Longrightarrow> \<not> P c \<Longrightarrow> takeWhile P (a @ c # b) = a"
  by (induction a) auto

lemma dropWhile_append_stop: "\<forall>x \<in> set a. P x \<Longrightarrow> \<not> P c \<Longrightarrow> dropWhile P (a @ c # b) = c # b"
  by (induction a) auto

lemma no_sep_toString:
  "CHR ''&'' \<notin> set (toString i)" "CHR ''='' \<notin> set (toString i)" "CHR ''?'' \<notin> set (toString i)"
  using toString_chars[of i] by auto

lemma no_sep_digits10:
  "CHR ''&'' \<notin> set (digits10 n)" "CHR ''='' \<notin> set (digits10 n)" "CHR ''?'' \<notin> set (digits10 n)"
  using digits10_chars[of n] by auto

lemma query_identity_history_tg:
  assumes "CHR ''&'' \<notin> set L" "CHR ''='' \<notin> set L" "CHR ''&'' \<notin> set t" "CHR ''='' \<notin> set t"
  shows "query_identity (''/api/chat/history?limit='' @ L @ ''&telegram_user_id='' @ t)
         = [(Query, ''telegram_user_id'', t)]"
proof -
  have s: "split_on CHR ''&'' (''limit='' @ L @ ''&telegram_user_id='' @ t)
           = [''limit='' @ L, ''telegram_user_id='' @ t]"
    using split_on_append[of "CHR ''&''" "''limit='' @ L" "''telegram_user_id='' @ t"]
          split_on_none[of "CHR ''&''" "''telegram_user_id='' @ t"] assms
    by simp
  show ?thesis
    using s by (simp add: query_identity_def identity_field_def)
qed

lemma query_identity_history_web:
  assumes "CHR ''&'' \<notin> set L" "CHR ''='' \<notin> set L"
  shows "query_identity (''/api/chat/history?limit='' @ L) = []"
proof -
  have s: "split_on CHR ''&'' (''limit='' @ L) = [''limit='' @ L]"
    using split_on_none[of "CHR ''&''" "''limit='' @ L"] assms by simp
  show ?thesis
    using s by (simp add: query_identity_def identity_field_def)
qed

lemma query_identity_no_query [simp]:
  "query_identity ''/api/chat'' = []" "query_identity ''/api/chat/clear'' = []"
  by (simp_all add: query_identity_def)

lemma getTelegramUserId_toString:
  "getTelegramUserId e = Some t \<Longrightarrow> \<exists>i. t = toString i"
  by (auto simp: getTelegramUserId_def split: option.splits if_splits)

lemma getTelegramUserId_nonempty: "getTelegramUserId e = Some t \<Longrightarrow> t \<noteq> []"
  by (auto dest!: getTelegramUserId_toString simp: toString_nonempty)

lemma getUserHeaders_telegram:
  "getTelegramUserId e = Some t \<Longrightarrow> getUserHeaders e = [''X-Telegram-User-Id'' \<mapsto> t]"
  by (simp add: getUserHeaders_def getTelegramUserId_nonempty)

lemma getUserHeaders_web: "getTelegramUserId e = None \<Longrightarrow> getUserHeaders e = Map.empty"
  by (simp add: getUserHeaders_def)

lemma header_identity_telegram:
  "getTelegramUserId e = Some t \<Longrightarrow> hs ''X-Telegram-User-Id'' = None
   \<Longrightarrow> header_identity (opts\<lparr>headers := Some (getUserHeaders e ++ hs)\<rparr>)
       = [(Header, ''X-Telegram-User-Id'', t)]"
  by (simp add: header_identity_def getUserHeaders_telegram map_add_def)

lemma header_identity_web:
  "getTelegramUserId e = None \<Longrightarrow> hs ''X-Telegram-User-Id'' = None
   \<Longrightarrow> header_identity (opts\<lparr>headers := Some (getUserHeaders e ++ hs)\<rparr>) = []"
  by (simp add: header_identity_def getUserHeaders_web)

lemma message_entries_no_identity:
  "form_identity (message_entries message imageFile @ fd) = form_identity fd"
  "has (message_entries message imageFile @ fd) ''user_id'' = has fd ''user_id''"
  "form_identity (message_entries message imageFile) = []"
  "\<not> has (message_entries message imageFile) ''user_id''"
  by (auto simp: message_entries_def identity_field_def has_def split: option.splits)

lemma sendMessage_request:
  assumes "getUserId e = Inr (x, e')"
  shows "ChatAPI_sendMessage parse stringify message imageFile e =
           Inr ((''/api/chat'',
                 \<lparr>method' = Some ''POST'', headers = Some (getUserHeaders e),
                  body = FormData (message_entries message imageFile
                           @ (case getTelegramUserId e of
                                Some t \<Rightarrow> [(''telegram_user_id'', FString t)] | None \<Rightarrow> [])
                           @ [(''user_id'', FString x)])\<rparr>),
                console_log ''Added user_id to FormData:'' x e')"
proof -
  let ?tg = "case getTelegramUserId e of
               Some t \<Rightarrow> [(''telegram_user_id'', FString t)] | None \<Rightarrow> []"
  let ?fd = "message_entries message imageFile @ ?tg"
  have nh: "\<not> has ?fd ''user_id''"
    by (cases "getTelegramUserId e") (simp_all add: message_entries_no_identity, simp_all add: has_def)
  have post: "ChatAPI_sendMessage parse stringify message imageFile e
              = makeRequest parse stringify ''/api/chat''
                  \<lparr>method' = Some ''POST'', headers = Some Map.empty, body = FormData ?fd\<rparr> e"
    by (auto simp: ChatAPI_sendMessage_def postFormData_def Let_def append'_def message_entries_def
          getTelegramUserId_nonempty split: option.splits)
  show ?thesis
    unfolding post
    by (simp add: makeRequest_def Let_def API_BASE_URL_def json_body_def fetch_patched_def
          inject_form_absent[OF nh assms])
qed

lemma clearHistory_request:
  assumes g: "getUserId e = Inr (x, e')"
      and ne: "stringify (JObj (case getTelegramUserId e of
                 Some t \<Rightarrow> [(''telegram_user_id'', JStr t)] | None \<Rightarrow> [])) \<noteq> []"
      and rt: "parse (stringify (JObj (case getTelegramUserId e of
                 Some t \<Rightarrow> [(''telegram_user_id'', JStr t)] | None \<Rightarrow> [])))
               = Inr (JObj (case getTelegramUserId e of
                 Some t \<Rightarrow> [(''telegram_user_id'', JStr t)] | None \<Rightarrow> []))"
  shows "ChatAPI_clearHistory parse stringify e =
           Inr ((''/api/chat/clear'',
                 \<lparr>method' = Some ''POST'',
                  headers = Some ((getUserHeaders e)(''Content-Type'' \<mapsto> ''application/json'')),
                  body = Text (stringify (JObj ((case getTelegramUserId e of
                           Some t \<Rightarrow> [(''telegram_user_id'', JStr t)] | None \<Rightarrow> [])
                           @ [(''user_id'', JStr x)])))\<rparr>),
                console_log ''Added user_id to JSON:'' x e')"
proof -
  let ?d0 = "case getTelegramUserId e of
               Some t \<Rightarrow> [(''telegram_user_id'', JStr t)] | None \<Rightarrow> []"
  let ?opts = "\<lparr>method' = Some ''POST'',
                headers = Some ((getUserHeaders e)(''Content-Type'' \<mapsto> ''application/json'')),
                body = Text (stringify (JObj ?d0))\<rparr>"
  have post: "ChatAPI_clearHistory parse stringify e
              = makeRequest parse stringify ''/api/chat/clear''
                  \<lparr>method' = Some ''POST'', headers = None, body = Text (stringify (JObj ?d0))\<rparr> e"
    by (cases "getTelegramUserId e")
       (simp_all add: ChatAPI_clearHistory_def post_def Let_def getTelegramUserId_nonempty)
  have mk: "makeRequest parse stringify ''/api/chat/clear''
              \<lparr>method' = Some ''POST'', headers = None, body = Text (stringify (JObj ?d0))\<rparr> e
            = fetch_patched parse stringify ''/api/chat/clear'' ?opts e"
    using ne by (simp add: makeRequest_def Let_def API_BASE_URL_def json_body_def)
  have no: "map_of ?d0 ''user_id'' = None"
    by (cases "getTelegramUserId e") simp_all
  have put: "put_field ?d0 ''user_id'' (JStr x) = ?d0 @ [(''user_id'', JStr x)]"
    by (cases "getTelegramUserId e") simp_all
  have ij: "inject_json parse stringify ?opts e
            = (?opts\<lparr>body := Text (stringify (JObj (?d0 @ [(''user_id'', JStr x)])))\<rparr>,
               console_log ''Added user_id to JSON:'' x e')"
    using rt no g getUserId_again[OF g]
    by (simp add: inject_json_def body_text_def put)
  have jct: "json_content_type ?opts" by (simp add: json_content_type_def)
  show ?thesis
    unfolding post mk using jct ij by (simp add: fetch_patched_def)
qed

lemma getHistory_request:
  "ChatAPI_getHistory parse stringify limit e =
     Inr ((''/api/chat/history?limit='' @ digits10 limit
             @ (case getTelegramUserId e of Some t \<Rightarrow> ''&telegram_user_id='' @ t | None \<Rightarrow> []),
           \<lparr>method' = Some ''GET'', headers = Some (getUserHeaders e), body = NoBody\<rparr>), e)"
proof (cases "getTelegramUserId e")
  case None
  then show ?thesis
    by (simp add: ChatAPI_getHistory_def get_def makeRequest_def Let_def API_BASE_URL_def
          json_body_def fetch_patched_def searchParams_toString_def urlencode_digits10 url_safe_def)
next
  case (Some t)
  then obtain i where t: "t = toString i" using getTelegramUserId_toString by blast
  have u: "urlencode t = t" using t urlencode_toString by simp
  show ?thesis
    using Some getTelegramUserId_nonempty[OF Some] u
    by (simp add: ChatAPI_getHistory_def get_def makeRequest_def Let_def API_BASE_URL_def
          json_body_def fetch_patched_def searchParams_toString_def urlencode_digits10 url_safe_def)
qed

lemma header_identity_plain:
  "header_identity \<lparr>method' = m, headers = Some hs, body = b\<rparr>
   = (case hs ''X-Telegram-User-Id'' of None \<Rightarrow> [] | Some v \<Rightarrow> [(Header, ''X-Telegram-User-Id'', v)])"
  by (simp add: header_identity_def)

lemma telegram_resolves: "getUserId telegram_env = Inr (''tg_555'', telegram_env)"
  by (simp add: getUserId_def telegram_identity_def toString_def digits10.simps env_defs)

lemma telegram_adapter_id: "getTelegramUserId telegram_env = Some ''555''"
  by (simp add: getTelegramUserId_def getTelegramUser_def toString_def digits10.simps env_defs)

lemma browser_adapter_id: "getTelegramUserId browser_env = None"
  by (simp add: getTelegramUserId_def getTelegramUser_def env_defs)

lemma returning_adapter_id: "getTelegramUserId returning_env = None"
  by (simp add: getTelegramUserId_def getTelegramUser_def env_defs)

lemma telegram_send_identities:
  "sent_identities JSON_parse
     (ChatAPI_sendMessage JSON_parse JSON_stringify ''hi'' None telegram_env)
   = Inr [(Header, ''X-Telegram-User-Id'', ''555''), (Body, ''telegram_user_id'', ''555''),
          (Body, ''user_id'', ''tg_555'')]"
  by (simp add: sent_identities_def sendMessage_request[OF telegram_resolves] telegram_adapter_id
        identity_values_def body_identity_def header_identity_plain getUserHeaders_telegram
        message_entries_def identity_field_def)

lemma browser_history_identities:
  "sent_identities JSON_parse (ChatAPI_getHistory JSON_parse JSON_stringify 10 browser_env) = Inr []"
  using query_identity_history_web[OF no_sep_digits10(1,2), of 10]
  by (simp add: sent_identities_def getHistory_request browser_adapter_id
        identity_values_def body_identity_def header_identity_plain getUserHeaders_web)

lemma tg_codec:
  "JSON_stringify (JObj [(''telegram_user_id'', JStr ''555'')]) \<noteq> []"
  "JSON_parse (JSON_stringify (JObj [(''telegram_user_id'', JStr ''555'')]))
   = Inr (JObj [(''telegram_user_id'', JStr ''555'')])"
  "JSON_parse (JSON_stringify (JObj ([(''telegram_user_id'', JStr ''555'')]
                                     @ [(''user_id'', JStr ''tg_555'')])))
   = Inr (JObj ([(''telegram_user_id'', JStr ''555'')] @ [(''user_id'', JStr ''tg_555'')]))"
  by (simp_all add: JSON_parse_def quote_def)

text \<open>
  C1, as stated, fails in both directions. In the Telegram host the multipart message
  leaves with three identity values, one in the header and two in the body, so the
  identity is duplicated across the header and the body; in a plain browser the history
  request leaves with none, because the client adds the query parameter for Telegram users
  only and the injector handles POST requests only.
\<close>

theorem chat_request_identities_counterexample:
  "sent_identities JSON_parse
     (ChatAPI_sendMessage JSON_parse JSON_stringify ''hi'' None telegram_env)
   = Inr [(Header, ''X-Telegram-User-Id'', ''555''), (Body, ''telegram_user_id'', ''555''),
          (Body, ''user_id'', ''tg_555'')]
   \<and> \<not> carries_one_identity JSON_parse
         (ChatAPI_sendMessage JSON_parse JSON_stringify ''hi'' None telegram_env)
   \<and> sent_identities JSON_parse (ChatAPI_getHistory JSON_parse JSON_stringify 10 browser_env)
       = Inr []
   \<and> \<not> carries_one_identity JSON_parse
         (ChatAPI_getHistory JSON_parse JSON_stringify 10 browser_env)"
  using telegram_send_identities browser_history_identities
  by (auto simp: sent_identities_def carries_one_identity_def split: sum.splits)

text \<open>
  C1, amended. Let \<open>x\<close> be the identity that \<^verbatim>\<open>getUserId\<close> resolves. Each identity field
  occurs at most once in a request, and the requests carry these identity values and no
  others. For a user whom the Telegram adapter identifies with id \<open>t\<close>: the multipart
  message and the JSON clear request carry three, the header \<^verbatim>\<open>X-Telegram-User-Id\<close> with
  \<open>t\<close>, the body field \<^verbatim>\<open>telegram_user_id\<close> with \<open>t\<close> and the body field \<^verbatim>\<open>user_id\<close> with \<open>x\<close>;
  the history request carries two, the header and the query parameter
  \<^verbatim>\<open>telegram_user_id\<close>, both with \<open>t\<close>. For any other user: the multipart message and the JSON
  clear request carry exactly one, the body field \<^verbatim>\<open>user_id\<close> with \<open>x\<close>, and the history
  request carries none. For the JSON request the theorem uses of the platform's
  \<^verbatim>\<open>JSON.parse\<close> and \<^verbatim>\<open>JSON.stringify\<close> that the two serialised objects are not empty
  texts and parse back to themselves.
\<close>

theorem chat_request_identities:
  assumes "getUserId e = Inr (x, e')"
  shows "(\<exists>req env. ChatAPI_sendMessage parse stringify message imageFile e = Inr (req, env)
            \<and> identity_values parse req =
                (case getTelegramUserId e of
                   Some t \<Rightarrow> [(Header, ''X-Telegram-User-Id'', t), (Body, ''telegram_user_id'', t),
                              (Body, ''user_id'', x)]
                 | None \<Rightarrow> [(Body, ''user_id'', x)]))
       \<and> (let d0 = (case getTelegramUserId e of
                       Some t \<Rightarrow> [(''telegram_user_id'', JStr t)] | None \<Rightarrow> [])
          in stringify (JObj d0) \<noteq> [] \<and> parse (stringify (JObj d0)) = Inr (JObj d0)
             \<and> parse (stringify (JObj (d0 @ [(''user_id'', JStr x)])))
                 = Inr (JObj (d0 @ [(''user_id'', JStr x)]))
             \<longrightarrow> (\<exists>req env. ChatAPI_clearHistory parse stringify e = Inr (req, env)
                    \<and> identity_values parse req =
                        (case getTelegramUserId e of
                           Some t \<Rightarrow> [(Header, ''X-Telegram-User-Id'', t),
                                      (Body, ''telegram_user_id'', t), (Body, ''user_id'', x)]
                         | None \<Rightarrow> [(Body, ''user_id'', x)])))
       \<and> (\<exists>req. ChatAPI_getHistory parse stringify limit e = Inr (req, e)
            \<and> identity_values parse req =
                (case getTelegramUserId e of
                   Some t \<Rightarrow> [(Header, ''X-Telegram-User-Id'', t), (Query, ''telegram_user_id'', t)]
                 | None \<Rightarrow> []))"
proof (intro conjI)
  show "\<exists>req env. ChatAPI_sendMessage parse stringify message imageFile e = Inr (req, env)
            \<and> identity_values parse req =
                (case getTelegramUserId e of
                   Some t \<Rightarrow> [(Header, ''X-Telegram-User-Id'', t), (Body, ''telegram_user_id'', t),
                              (Body, ''user_id'', x)]
                 | None \<Rightarrow> [(Body, ''user_id'', x)])"
    unfolding sendMessage_request[OF assms]
    by (cases "getTelegramUserId e")
       (simp_all add: identity_values_def body_identity_def header_identity_plain
          message_entries_no_identity getUserHeaders_telegram getUserHeaders_web identity_field_def)
next
  let ?d0 = "case getTelegramUserId e of
               Some t \<Rightarrow> [(''telegram_user_id'', JStr t)] | None \<Rightarrow> []"
  have "\<exists>req env. ChatAPI_clearHistory parse stringify e = Inr (req, env)
                    \<and> identity_values parse req =
                        (case getTelegramUserId e of
                           Some t \<Rightarrow> [(Header, ''X-Telegram-User-Id'', t),
                                      (Body, ''telegram_user_id'', t), (Body, ''user_id'', x)]
                         | None \<Rightarrow> [(Body, ''user_id'', x)])"
    if h: "stringify (JObj ?d0) \<noteq> []" "parse (stringify (JObj ?d0)) = Inr (JObj ?d0)"
          "parse (stringify (JObj (?d0 @ [(''user_id'', JStr x)])))
                 = Inr (JObj (?d0 @ [(''user_id'', JStr x)]))"
    unfolding clearHistory_request[where parse = parse and stringify = stringify and e = e
        and x = x and e' = e', OF assms h(1) h(2)]
    using h(3)
    by (cases "getTelegramUserId e")
       (simp_all add: identity_values_def body_identity_def header_identity_plain
          getUserHeaders_telegram getUserHeaders_web identity_field_def)
  then show "let d0 = ?d0
          in stringify (JObj d0) \<noteq> [] \<and> parse (stringify (JObj d0)) = Inr (JObj d0)
             \<and> parse (stringify (JObj (d0 @ [(''user_id'', JStr x)])))
                 = Inr (JObj (d0 @ [(''user_id'', JStr x)]))
             \<longrightarrow> (\<exists>req env. ChatAPI_clearHistory parse stringify e = Inr (req, env)
                    \<and> identity_values parse req =
                        (case getTelegramUserId e of
                           Some t \<Rightarrow> [(Header, ''X-Telegram-User-Id'', t),
                                      (Body, ''telegram_user_id'', t), (Body, ''user_id'', x)]
                         | None \<Rightarrow> [(Body, ''user_id'', x)]))"
    by (simp add: Let_def)
next
  show "\<exists>req. ChatAPI_getHistory parse stringify limit e = Inr (req, e)
            \<and> identity_values parse req =
                (case getTelegramUserId e of
                   Some t \<Rightarrow> [(Header, ''X-Telegram-User-Id'', t), (Query, ''telegram_user_id'', t)]
                 | None \<Rightarrow> [])"
  proof (cases "getTelegramUserId e")
    case None
    show ?thesis
      unfolding getHistory_request
      using None query_identity_history_web[OF no_sep_digits10(1,2), of limit]
      by (simp add: identity_values_def body_identity_def header_identity_plain getUserHeaders_web)
  next
    case (Some t)
    then obtain i where t: "t = toString i" using getTelegramUserId_toString by blast
    have q: "query_identity (''/api/chat/history?limit='' @ digits10 limit @ ''&telegram_user_id='' @ t)
             = [(Query, ''telegram_user_id'', t)]"
      unfolding t
      by (rule query_identity_history_tg[OF no_sep_digits10(1,2) no_sep_toString(1,2)])
    show ?thesis
      unfolding getHistory_request
      using Some q
      by (simp add: identity_values_def body_identity_def header_identity_plain
            getUserHeaders_telegram)
  qed
qed

theorem chat_request_identities_witness:
  "getUserId telegram_env = Inr (''tg_555'', telegram_env)
   \<and> getTelegramUserId telegram_env = Some ''555''
   \<and> sent_identities JSON_parse
        (ChatAPI_sendMessage JSON_parse JSON_stringify ''hi'' None telegram_env)
      = Inr [(Header, ''X-Telegram-User-Id'', ''555''), (Body, ''telegram_user_id'', ''555''),
             (Body, ''user_id'', ''tg_555'')]
   \<and> sent_identities JSON_parse (ChatAPI_clearHistory JSON_parse JSON_stringify telegram_env)
      = Inr [(Header, ''X-Telegram-User-Id'', ''555''), (Body, ''telegram_user_id'', ''555''),
             (Body, ''user_id'', ''tg_555'')]
   \<and> sent_identities JSON_parse (ChatAPI_getHistory JSON_parse JSON_stringify 10 telegram_env)
      = Inr [(Header, ''X-Telegram-User-Id'', ''555''), (Query, ''telegram_user_id'', ''555'')]
   \<and> getUserId returning_env = Inr (''web_1690000000000_k3j9x0q1zab'', returning_env)
   \<and> getTelegramUserId returning_env = None
   \<and> sent_identities JSON_parse
        (ChatAPI_sendMessage JSON_parse JSON_stringify ''hi'' None returning_env)
      = Inr [(Body, ''user_id'', ''web_1690000000000_k3j9x0q1zab'')]
   \<and> sent_identities JSON_parse (ChatAPI_getHistory JSON_parse JSON_stringify 10 returning_env)
      = Inr []"
proof -
  note t = chat_request_identities[where e = telegram_env and x = "''tg_555''"
      and e' = telegram_env and parse = JSON_parse and stringify = JSON_stringify
      and message = "''hi''" and imageFile = None and limit = 10]
  note w = chat_request_identities[where e = returning_env
      and x = "''web_1690000000000_k3j9x0q1zab''"
      and e' = returning_env and parse = JSON_parse and stringify = JSON_stringify
      and message = "''hi''" and imageFile = None and limit = 10]
  have a: "sent_identities JSON_parse
        (ChatAPI_sendMessage JSON_parse JSON_stringify ''hi'' None telegram_env)
      = Inr [(Header, ''X-Telegram-User-Id'', ''555''), (Body, ''telegram_user_id'', ''555''),
             (Body, ''user_id'', ''tg_555'')]
   \<and> sent_identities JSON_parse (ChatAPI_clearHistory JSON_parse JSON_stringify telegram_env)
      = Inr [(Header, ''X-Telegram-User-Id'', ''555''), (Body, ''telegram_user_id'', ''555''),
             (Body, ''user_id'', ''tg_555'')]
   \<and> sent_identities JSON_parse (ChatAPI_getHistory JSON_parse JSON_stringify 10 telegram_env)
      = Inr [(Header, ''X-Telegram-User-Id'', ''555''), (Query, ''telegram_user_id'', ''555'')]"
    using t[OF telegram_resolves] tg_codec
    by (auto simp: telegram_adapter_id sent_identities_def Let_def simp del: JSON_stringify.simps)
  have b: "sent_identities JSON_parse
        (ChatAPI_sendMessage JSON_parse JSON_stringify ''hi'' None returning_env)
      = Inr [(Body, ''user_id'', ''web_1690000000000_k3j9x0q1zab'')]
   \<and> sent_identities JSON_parse (ChatAPI_getHistory JSON_parse JSON_stringify 10 returning_env)
      = Inr []"
    using w[OF returning_resolves]
    by (auto simp: returning_adapter_id sent_identities_def Let_def simp del: JSON_stringify.simps)
  show ?thesis
    using a b telegram_resolves telegram_adapter_id returning_resolves returning_adapter_id
    by blast
qed

end
